theory Spec2Isabelle
  imports Complex_Main "HOL-Library.AList"
begin

section \<open>Data model\<close>

subsection \<open>Values of the Python library\<close>

text \<open>
  A Python \<open>float\<close> is a finite double, an infinity or a NaN. A finite double is
  identified with its exact value, a rational number: every double is one, so a statement
  about all rationals covers all doubles. Negative zero and zero are both \<open>Finite 0\<close>:
  the code only tests them for truth, where they agree.
\<close>

datatype pyfloat = Finite rat | PosInf | NegInf | NaN

record datetime =
  year :: nat
  month :: nat
  day :: nat
  hour :: nat
  minute :: nat
  second :: nat
  microsecond :: nat

text \<open>
  The library functions the code calls and does not define: \<open>float(s)\<close>,
  \<open>datetime.strptime(s, fmt)\<close> (\<open>None\<close> is the \<open>ValueError\<close> either raises on a
  string it rejects) and \<open>d.strftime(fmt)\<close>. The code is modelled for any behaviour of
  the three.
\<close>

record pylib =
  py_float :: "string \<Rightarrow> pyfloat option"
  strptime :: "string \<Rightarrow> string \<Rightarrow> datetime option"
  strftime :: "datetime \<Rightarrow> string \<Rightarrow> string"

subsection \<open>Documents\<close>

text \<open>
  An \<open>xml.etree.ElementTree.Element\<close>: the qualified tag \<open>{uri}local\<close>, the attribute
  dictionary, the child elements in document order.
\<close>

datatype element = Element (tag: string) (attrib: "(string \<times> string) list") (children: "element list")

text \<open>\<open>elem.get(key)\<close> and \<open>elem.get(key, default)\<close>.\<close>

definition get :: "element \<Rightarrow> string \<Rightarrow> string option" where
  "get e k = map_of (attrib e) k"

definition get_default :: "element \<Rightarrow> string \<Rightarrow> string \<Rightarrow> string" where
  "get_default e k d = (case map_of (attrib e) k of None \<Rightarrow> d | Some v \<Rightarrow> v)"

text \<open>\<open>elem.iter()\<close>: the element and its descendants, in document order.\<close>

fun iter :: "element \<Rightarrow> element list" where
  "iter (Element t a cs) = Element t a cs # concat (map iter cs)"

text \<open>
  \<open>elem.find('p:Name', ns)\<close> is the first child with the qualified tag, and
  \<open>elem.find('.//p:Name', ns)\<close> the first descendant with it, the element itself
  excluded.
\<close>

definition find_child :: "element \<Rightarrow> string \<Rightarrow> element option" where
  "find_child e t = find (\<lambda>c. tag c = t) (children e)"

definition find_descendant :: "element \<Rightarrow> string \<Rightarrow> element option" where
  "find_descendant e t = find (\<lambda>c. tag c = t) (concat (map iter (children e)))"

definition startswith :: "string \<Rightarrow> string \<Rightarrow> bool" where
  "startswith s p = (take (length p) s = p)"

definition endswith :: "string \<Rightarrow> string \<Rightarrow> bool" where
  "endswith s p = (length p \<le> length s \<and> drop (length s - length p) s = p)"

text \<open>\<open>a or b\<close> on optional strings: \<open>a\<close> when it is a non-empty string, else \<open>b\<close>.\<close>

definition py_or :: "string option \<Rightarrow> string option \<Rightarrow> string option" where
  "py_or a b = (case a of None \<Rightarrow> b | Some s \<Rightarrow> if s = [] then b else Some s)"

subsection \<open>The file system and the output stream\<close>

type_synonym path = "string list"

text \<open>
  A file's bytes either parse as XML or do not: the content is kept as the outcome of
  \<open>ET.parse\<close>. A directory lists its entries in the order the system yields them.
\<close>

datatype content = NotWellFormed | Document element

datatype node = File content | Dir "(string \<times> node) list"

datatype exn =
    FileNotFoundError path
  | ParseError
  | IsADirectoryError
  | NotADirectoryError
  | FileExistsError
  | ValueError_version string
  | UnicodeEncodeError

datatype diag =
    Error_al_parsear path exn
  | No_se_pudo_convertir_la_fecha string

record world =
  fs :: node
  stdout :: "diag list"

text \<open>
  \<open>print\<close> on a stream that writes every line. The write can fail in Python (a stream
  whose encoding has no code for a character of the line); the functions that print are
  given a second time with that failure, under \<open>A stream that refuses lines\<close>, and
  whatever is stated of the functions of this first form is stated of a stream that writes.
\<close>

definition print :: "diag \<Rightarrow> world \<Rightarrow> world" where
  "print d w = w\<lparr>stdout := stdout w @ [d]\<rparr>"

fun lookup :: "path \<Rightarrow> node \<Rightarrow> node option" where
  "lookup [] n = Some n"
| "lookup (c # p) n =
     (case n of File _ \<Rightarrow> None
      | Dir es \<Rightarrow> (case map_of es c of None \<Rightarrow> None | Some m \<Rightarrow> lookup p m))"

definition exists :: "node \<Rightarrow> path \<Rightarrow> bool" where
  "exists r p = (lookup p r \<noteq> None)"

definition is_dir :: "node \<Rightarrow> path \<Rightarrow> bool" where
  "is_dir r p = (case lookup p r of Some (Dir _) \<Rightarrow> True | _ \<Rightarrow> False)"

text \<open>\<open>Path.name\<close>: the last component.\<close>

definition name :: "path \<Rightarrow> string" where
  "name p = (if p = [] then [] else last p)"

text \<open>\<open>ET.parse(path).getroot()\<close>.\<close>

definition ET_parse :: "node \<Rightarrow> path \<Rightarrow> exn + element" where
  "ET_parse r p =
     (case lookup p r of
        None \<Rightarrow> Inl (FileNotFoundError p)
      | Some (Dir _) \<Rightarrow> Inl IsADirectoryError
      | Some (File NotWellFormed) \<Rightarrow> Inl ParseError
      | Some (File (Document e)) \<Rightarrow> Inr e)"

text \<open>
  \<open>Path.glob("*.xml")\<close>: the entries of the directory whose name ends in \<open>.xml\<close>, in
  listing order; nothing when the path is not a directory.
\<close>

definition glob_xml :: "node \<Rightarrow> path \<Rightarrow> path list" where
  "glob_xml r p =
     (case lookup p r of
        Some (Dir es) \<Rightarrow> map (\<lambda>n. p @ [n]) (filter (\<lambda>n. endswith n ''.xml'') (map fst es))
      | _ \<Rightarrow> [])"

section \<open>mod_xml\<close>

text \<open>
  The methods of \<open>CFDIParser\<close> keep their names without the leading underscore; the
  instance holds nothing but the constant namespace table. Each function that prints
  takes the world and returns it.
\<close>

record CFDIData =
  folio :: "string option"
  serie :: "string option"
  fecha_emision :: "datetime option"
  total :: "pyfloat option"
  subtotal :: "pyfloat option"
  moneda :: "string option"
  emisor_rfc :: "string option"
  emisor_nombre :: "string option"
  emisor_regimen :: "string option"
  receptor_rfc :: "string option"
  receptor_nombre :: "string option"
  uuid :: "string option"
  fecha_timbrado :: "datetime option"
  version :: "string option"
  archivo_origen :: "string option"

text \<open>\<open>CFDIData()\<close>: every field defaults to \<open>None\<close>.\<close>

definition CFDIData_init :: CFDIData where
  "CFDIData_init = \<lparr>folio = None, serie = None, fecha_emision = None, total = None,
     subtotal = None, moneda = None, emisor_rfc = None, emisor_nombre = None,
     emisor_regimen = None, receptor_rfc = None, receptor_nombre = None, uuid = None,
     fecha_timbrado = None, version = None, archivo_origen = None\<rparr>"

definition ns_cfdi4 :: string where "ns_cfdi4 = ''{http://www.sat.gob.mx/cfd/4}''"
definition ns_cfdi3 :: string where "ns_cfdi3 = ''{http://www.sat.gob.mx/cfd/3}''"
definition ns_tfd :: string where "ns_tfd = ''{http://www.sat.gob.mx/TimbreFiscalDigital}''"

definition detectar_version :: "element \<Rightarrow> string" where
  "detectar_version raiz =
     (if startswith (tag raiz) ns_cfdi4 then ''4.0''
      else if startswith (tag raiz) ns_cfdi3 then ''3.3''
      else get_default raiz ''Version'' ''3.3'')"

definition convertir_a_float :: "pylib \<Rightarrow> string option \<Rightarrow> pyfloat option" where
  "convertir_a_float L valor =
     (case valor of None \<Rightarrow> None
      | Some s \<Rightarrow> if s = [] then None else py_float L s)"

definition formatos :: "string list" where
  "formatos = [''%Y-%m-%dT%H:%M:%S'', ''%Y-%m-%d %H:%M:%S'', ''%Y-%m-%dT%H:%M:%S.%f'', ''%Y-%m-%d'']"

text \<open>The \<open>for formato in formatos\<close> loop: the first format that parses returns.\<close>

fun probar_formatos :: "pylib \<Rightarrow> string \<Rightarrow> string list \<Rightarrow> datetime option" where
  "probar_formatos L s [] = None"
| "probar_formatos L s (formato # resto) =
     (case strptime L s formato of Some d \<Rightarrow> Some d | None \<Rightarrow> probar_formatos L s resto)"

definition convertir_fecha :: "pylib \<Rightarrow> string option \<Rightarrow> world \<Rightarrow> datetime option \<times> world" where
  "convertir_fecha L fecha_str w =
     (case fecha_str of None \<Rightarrow> (None, w)
      | Some s \<Rightarrow>
          if s = [] then (None, w)
          else (case probar_formatos L s formatos of
                  Some d \<Rightarrow> (Some d, w)
                | None \<Rightarrow> (None, print (No_se_pudo_convertir_la_fecha s) w)))"

definition extraer_timbre_fiscal :: "pylib \<Rightarrow> element \<Rightarrow> CFDIData \<Rightarrow> world \<Rightarrow> CFDIData \<times> world" where
  "extraer_timbre_fiscal L raiz cfdi w =
     (case find_descendant raiz (ns_tfd @ ''TimbreFiscalDigital'') of
        None \<Rightarrow> (cfdi, w)
      | Some complemento \<Rightarrow>
          (let cfdi1 = cfdi\<lparr>uuid := get complemento ''UUID''\<rparr>;
               (f, w1) = convertir_fecha L (get complemento ''FechaTimbrado'') w
           in (cfdi1\<lparr>fecha_timbrado := f\<rparr>, w1)))"

definition parsear_cfdi_v4 :: "pylib \<Rightarrow> element \<Rightarrow> path \<Rightarrow> world \<Rightarrow> CFDIData \<times> world" where
  "parsear_cfdi_v4 L raiz archivo w =
     (let cfdi = CFDIData_init\<lparr>version := Some ''4.0'', archivo_origen := Some (name archivo)\<rparr>;
          cfdi = cfdi\<lparr>folio := get raiz ''Folio'', serie := get raiz ''Serie'',
                     total := convertir_a_float L (get raiz ''Total''),
                     subtotal := convertir_a_float L (get raiz ''SubTotal''),
                     moneda := Some (get_default raiz ''Moneda'' ''MXN'')\<rparr>;
          (f, w1) = convertir_fecha L (get raiz ''Fecha'') w;
          cfdi = cfdi\<lparr>fecha_emision := f\<rparr>;
          cfdi = (case find_child raiz (ns_cfdi4 @ ''Emisor'') of
                    None \<Rightarrow> cfdi
                  | Some emisor \<Rightarrow> cfdi\<lparr>emisor_rfc := get emisor ''Rfc'',
                        emisor_nombre := get emisor ''Nombre'',
                        emisor_regimen := get emisor ''RegimenFiscal''\<rparr>);
          cfdi = (case find_child raiz (ns_cfdi4 @ ''Receptor'') of
                    None \<Rightarrow> cfdi
                  | Some receptor \<Rightarrow> cfdi\<lparr>receptor_rfc := get receptor ''Rfc'',
                        receptor_nombre := get receptor ''Nombre''\<rparr>)
      in extraer_timbre_fiscal L raiz cfdi w1)"

definition parsear_cfdi_v3 :: "pylib \<Rightarrow> element \<Rightarrow> path \<Rightarrow> world \<Rightarrow> CFDIData \<times> world" where
  "parsear_cfdi_v3 L raiz archivo w =
     (let cfdi = CFDIData_init\<lparr>version := Some ''3.3'', archivo_origen := Some (name archivo)\<rparr>;
          cfdi = cfdi\<lparr>folio := py_or (get raiz ''folio'') (get raiz ''Folio''),
                     serie := py_or (get raiz ''serie'') (get raiz ''Serie''),
                     total := convertir_a_float L (py_or (get raiz ''total'') (get raiz ''Total'')),
                     subtotal := convertir_a_float L (py_or (get raiz ''subTotal'') (get raiz ''SubTotal'')),
                     moneda := Some (get_default raiz ''Moneda'' ''MXN'')\<rparr>;
          (f, w1) = convertir_fecha L (py_or (get raiz ''fecha'') (get raiz ''Fecha'')) w;
          cfdi = cfdi\<lparr>fecha_emision := f\<rparr>;
          cfdi = (case find_child raiz (ns_cfdi3 @ ''Emisor'') of
                    None \<Rightarrow> cfdi
                  | Some emisor \<Rightarrow> cfdi\<lparr>emisor_rfc := py_or (get emisor ''rfc'') (get emisor ''Rfc''),
                        emisor_nombre := py_or (get emisor ''nombre'') (get emisor ''Nombre'')\<rparr>);
          cfdi = (case find_child raiz (ns_cfdi3 @ ''Receptor'') of
                    None \<Rightarrow> cfdi
                  | Some receptor \<Rightarrow> cfdi\<lparr>receptor_rfc := py_or (get receptor ''rfc'') (get receptor ''Rfc''),
                        receptor_nombre := py_or (get receptor ''nombre'') (get receptor ''Nombre'')\<rparr>)
      in extraer_timbre_fiscal L raiz cfdi w1)"

text \<open>
  The \<open>try\<close> block of \<open>parsear_archivo\<close>: \<open>Inl\<close> is the exception that leaves it.
\<close>

definition parsear_archivo_try :: "pylib \<Rightarrow> path \<Rightarrow> world \<Rightarrow> (exn + CFDIData) \<times> world" where
  "parsear_archivo_try L ruta_archivo w =
     (if \<not> exists (fs w) ruta_archivo then (Inl (FileNotFoundError ruta_archivo), w)
      else (case ET_parse (fs w) ruta_archivo of
              Inl e \<Rightarrow> (Inl e, w)
            | Inr raiz \<Rightarrow>
                (let version = detectar_version raiz
                 in if version = ''4.0'' then
                      (let (c, w1) = parsear_cfdi_v4 L raiz ruta_archivo w in (Inr c, w1))
                    else if version = ''3.3'' then
                      (let (c, w1) = parsear_cfdi_v3 L raiz ruta_archivo w in (Inr c, w1))
                    else (Inl (ValueError_version version), w))))"

text \<open>\<open>except Exception as e\<close>: print, return \<open>None\<close>.\<close>

definition parsear_archivo :: "pylib \<Rightarrow> path \<Rightarrow> world \<Rightarrow> CFDIData option \<times> world" where
  "parsear_archivo L ruta_archivo w =
     (case parsear_archivo_try L ruta_archivo w of
        (Inr c, w1) \<Rightarrow> (Some c, w1)
      | (Inl e, w1) \<Rightarrow> (None, print (Error_al_parsear ruta_archivo e) w1))"

definition parsear_cfdi :: "pylib \<Rightarrow> path \<Rightarrow> world \<Rightarrow> CFDIData option \<times> world" where
  "parsear_cfdi L archivo_path w = parsear_archivo L archivo_path w"

text \<open>
  \<open>procesar_cfdis_pendientes\<close>: the loop over the globbed paths, appending each
  result that is not \<open>None\<close> (a \<open>CFDIData\<close> object is always true).
\<close>

fun procesar_bucle :: "pylib \<Rightarrow> path list \<Rightarrow> CFDIData list \<Rightarrow> world \<Rightarrow> CFDIData list \<times> world" where
  "procesar_bucle L [] cfdis w = (cfdis, w)"
| "procesar_bucle L (archivo # resto) cfdis w =
     (case parsear_cfdi L archivo w of
        (Some cfdi_data, w1) \<Rightarrow> procesar_bucle L resto (cfdis @ [cfdi_data]) w1
      | (None, w1) \<Rightarrow> procesar_bucle L resto cfdis w1)"

text \<open>
  The directories of \<open>mod_rutas\<close>. \<open>DIR_BASE\<close> is where the code is installed
  (\<open>Path(__file__).parent.parent\<close>): a parameter here.
\<close>

definition DIR_PENDIENTES :: "path \<Rightarrow> path" where
  "DIR_PENDIENTES DIR_BASE = DIR_BASE @ [''data'', ''facturas_pendientes'']"

definition DIR_PROCESADAS :: "path \<Rightarrow> path" where
  "DIR_PROCESADAS DIR_BASE = DIR_BASE @ [''data'', ''facturas_procesadas'']"

definition procesar_cfdis_pendientes :: "pylib \<Rightarrow> path \<Rightarrow> world \<Rightarrow> CFDIData list \<times> world" where
  "procesar_cfdis_pendientes L DIR_BASE w =
     (if exists (fs w) (DIR_PENDIENTES DIR_BASE)
      then procesar_bucle L (glob_xml (fs w) (DIR_PENDIENTES DIR_BASE)) [] w
      else ([], w))"

subsection \<open>A stream that refuses lines\<close>

text \<open>
  \<open>print\<close> encodes its line for the stream before it writes, and raises
  \<open>UnicodeEncodeError\<close>, writing nothing, when the encoding of the stream has no code
  for a character of the line. Below, \<open>acepta d\<close> tells whether the stream can write
  the line \<open>d\<close>; the functions that print are written again with that failure, and
  \<open>Inl\<close> is the exception that leaves the function. The print of \<open>_convertir_fecha\<close>
  is reached inside the \<open>try\<close> block of \<open>parsear_archivo\<close>, whose handler catches what
  it raises; the print of the handler itself is inside no \<open>try\<close> block.
\<close>

definition print_io :: "(diag \<Rightarrow> bool) \<Rightarrow> diag \<Rightarrow> world \<Rightarrow> exn option \<times> world" where
  "print_io acepta d w = (if acepta d then (None, print d w) else (Some UnicodeEncodeError, w))"

definition convertir_fecha_io ::
  "(diag \<Rightarrow> bool) \<Rightarrow> pylib \<Rightarrow> string option \<Rightarrow> world \<Rightarrow> (exn + datetime option) \<times> world" where
  "convertir_fecha_io acepta L fecha_str w =
     (case fecha_str of None \<Rightarrow> (Inr None, w)
      | Some s \<Rightarrow>
          if s = [] then (Inr None, w)
          else (case probar_formatos L s formatos of
                  Some d \<Rightarrow> (Inr (Some d), w)
                | None \<Rightarrow>
                    (case print_io acepta (No_se_pudo_convertir_la_fecha s) w of
                       (Some e, w1) \<Rightarrow> (Inl e, w1)
                     | (None, w1) \<Rightarrow> (Inr None, w1))))"

definition extraer_timbre_fiscal_io ::
  "(diag \<Rightarrow> bool) \<Rightarrow> pylib \<Rightarrow> element \<Rightarrow> CFDIData \<Rightarrow> world \<Rightarrow> (exn + CFDIData) \<times> world" where
  "extraer_timbre_fiscal_io acepta L raiz cfdi w =
     (case find_descendant raiz (ns_tfd @ ''TimbreFiscalDigital'') of
        None \<Rightarrow> (Inr cfdi, w)
      | Some complemento \<Rightarrow>
          (let cfdi1 = cfdi\<lparr>uuid := get complemento ''UUID''\<rparr>
           in (case convertir_fecha_io acepta L (get complemento ''FechaTimbrado'') w of
                 (Inl e, w1) \<Rightarrow> (Inl e, w1)
               | (Inr f, w1) \<Rightarrow> (Inr (cfdi1\<lparr>fecha_timbrado := f\<rparr>), w1))))"

definition parsear_cfdi_v4_io ::
  "(diag \<Rightarrow> bool) \<Rightarrow> pylib \<Rightarrow> element \<Rightarrow> path \<Rightarrow> world \<Rightarrow> (exn + CFDIData) \<times> world" where
  "parsear_cfdi_v4_io acepta L raiz archivo w =
     (let cfdi = CFDIData_init\<lparr>version := Some ''4.0'', archivo_origen := Some (name archivo)\<rparr>;
          cfdi = cfdi\<lparr>folio := get raiz ''Folio'', serie := get raiz ''Serie'',
                     total := convertir_a_float L (get raiz ''Total''),
                     subtotal := convertir_a_float L (get raiz ''SubTotal''),
                     moneda := Some (get_default raiz ''Moneda'' ''MXN'')\<rparr>
      in (case convertir_fecha_io acepta L (get raiz ''Fecha'') w of
            (Inl e, w1) \<Rightarrow> (Inl e, w1)
          | (Inr f, w1) \<Rightarrow>
              (let cfdi = cfdi\<lparr>fecha_emision := f\<rparr>;
                   cfdi = (case find_child raiz (ns_cfdi4 @ ''Emisor'') of
                             None \<Rightarrow> cfdi
                           | Some emisor \<Rightarrow> cfdi\<lparr>emisor_rfc := get emisor ''Rfc'',
                                 emisor_nombre := get emisor ''Nombre'',
                                 emisor_regimen := get emisor ''RegimenFiscal''\<rparr>);
                   cfdi = (case find_child raiz (ns_cfdi4 @ ''Receptor'') of
                             None \<Rightarrow> cfdi
                           | Some receptor \<Rightarrow> cfdi\<lparr>receptor_rfc := get receptor ''Rfc'',
                                 receptor_nombre := get receptor ''Nombre''\<rparr>)
               in extraer_timbre_fiscal_io acepta L raiz cfdi w1)))"

definition parsear_cfdi_v3_io ::
  "(diag \<Rightarrow> bool) \<Rightarrow> pylib \<Rightarrow> element \<Rightarrow> path \<Rightarrow> world \<Rightarrow> (exn + CFDIData) \<times> world" where
  "parsear_cfdi_v3_io acepta L raiz archivo w =
     (let cfdi = CFDIData_init\<lparr>version := Some ''3.3'', archivo_origen := Some (name archivo)\<rparr>;
          cfdi = cfdi\<lparr>folio := py_or (get raiz ''folio'') (get raiz ''Folio''),
                     serie := py_or (get raiz ''serie'') (get raiz ''Serie''),
                     total := convertir_a_float L (py_or (get raiz ''total'') (get raiz ''Total'')),
                     subtotal := convertir_a_float L (py_or (get raiz ''subTotal'') (get raiz ''SubTotal'')),
                     moneda := Some (get_default raiz ''Moneda'' ''MXN'')\<rparr>
      in (case convertir_fecha_io acepta L (py_or (get raiz ''fecha'') (get raiz ''Fecha'')) w of
            (Inl e, w1) \<Rightarrow> (Inl e, w1)
          | (Inr f, w1) \<Rightarrow>
              (let cfdi = cfdi\<lparr>fecha_emision := f\<rparr>;
                   cfdi = (case find_child raiz (ns_cfdi3 @ ''Emisor'') of
                             None \<Rightarrow> cfdi
                           | Some emisor \<Rightarrow> cfdi\<lparr>emisor_rfc := py_or (get emisor ''rfc'') (get emisor ''Rfc''),
                                 emisor_nombre := py_or (get emisor ''nombre'') (get emisor ''Nombre'')\<rparr>);
                   cfdi = (case find_child raiz (ns_cfdi3 @ ''Receptor'') of
                             None \<Rightarrow> cfdi
                           | Some receptor \<Rightarrow> cfdi\<lparr>receptor_rfc := py_or (get receptor ''rfc'') (get receptor ''Rfc''),
                                 receptor_nombre := py_or (get receptor ''nombre'') (get receptor ''Nombre'')\<rparr>)
               in extraer_timbre_fiscal_io acepta L raiz cfdi w1)))"

definition parsear_archivo_try_io ::
  "(diag \<Rightarrow> bool) \<Rightarrow> pylib \<Rightarrow> path \<Rightarrow> world \<Rightarrow> (exn + CFDIData) \<times> world" where
  "parsear_archivo_try_io acepta L ruta_archivo w =
     (if \<not> exists (fs w) ruta_archivo then (Inl (FileNotFoundError ruta_archivo), w)
      else (case ET_parse (fs w) ruta_archivo of
              Inl e \<Rightarrow> (Inl e, w)
            | Inr raiz \<Rightarrow>
                (let version = detectar_version raiz
                 in if version = ''4.0'' then parsear_cfdi_v4_io acepta L raiz ruta_archivo w
                    else if version = ''3.3'' then parsear_cfdi_v3_io acepta L raiz ruta_archivo w
                    else (Inl (ValueError_version version), w))))"

text \<open>
  \<open>except Exception as e\<close>: print, return \<open>None\<close>; what the print raises leaves
  \<open>parsear_archivo\<close>.
\<close>

definition parsear_archivo_io ::
  "(diag \<Rightarrow> bool) \<Rightarrow> pylib \<Rightarrow> path \<Rightarrow> world \<Rightarrow> (exn + CFDIData option) \<times> world" where
  "parsear_archivo_io acepta L ruta_archivo w =
     (case parsear_archivo_try_io acepta L ruta_archivo w of
        (Inr c, w1) \<Rightarrow> (Inr (Some c), w1)
      | (Inl e, w1) \<Rightarrow>
          (case print_io acepta (Error_al_parsear ruta_archivo e) w1 of
             (Some x, w2) \<Rightarrow> (Inl x, w2)
           | (None, w2) \<Rightarrow> (Inr None, w2)))"

definition parsear_cfdi_io ::
  "(diag \<Rightarrow> bool) \<Rightarrow> pylib \<Rightarrow> path \<Rightarrow> world \<Rightarrow> (exn + CFDIData option) \<times> world" where
  "parsear_cfdi_io acepta L archivo_path w = parsear_archivo_io acepta L archivo_path w"

text \<open>The loop of \<open>procesar_cfdis_pendientes\<close> has no handler: an exception ends it.\<close>

fun procesar_bucle_io ::
  "(diag \<Rightarrow> bool) \<Rightarrow> pylib \<Rightarrow> path list \<Rightarrow> CFDIData list \<Rightarrow> world \<Rightarrow> (exn + CFDIData list) \<times> world" where
  "procesar_bucle_io acepta L [] cfdis w = (Inr cfdis, w)"
| "procesar_bucle_io acepta L (archivo # resto) cfdis w =
     (case parsear_cfdi_io acepta L archivo w of
        (Inl e, w1) \<Rightarrow> (Inl e, w1)
      | (Inr (Some cfdi_data), w1) \<Rightarrow> procesar_bucle_io acepta L resto (cfdis @ [cfdi_data]) w1
      | (Inr None, w1) \<Rightarrow> procesar_bucle_io acepta L resto cfdis w1)"

definition procesar_cfdis_pendientes_io ::
  "(diag \<Rightarrow> bool) \<Rightarrow> pylib \<Rightarrow> path \<Rightarrow> world \<Rightarrow> (exn + CFDIData list) \<times> world" where
  "procesar_cfdis_pendientes_io acepta L DIR_BASE w =
     (if exists (fs w) (DIR_PENDIENTES DIR_BASE)
      then procesar_bucle_io acepta L (glob_xml (fs w) (DIR_PENDIENTES DIR_BASE)) [] w
      else (Inr [], w))"

subsection \<open>The summary\<close>

text \<open>\<open>bool(x)\<close> of a float: false for zero only.\<close>

definition float_bool :: "pyfloat \<Rightarrow> bool" where
  "float_bool x = (x \<noteq> Finite 0)"

definition digit :: "nat \<Rightarrow> char" where
  "digit n = ''0123456789'' ! (n mod 10)"

fun decimal :: "nat \<Rightarrow> string" where
  "decimal n = (if n < 10 then [digit n] else decimal (n div 10) @ [digit n])"

declare decimal.simps [simp del]

fun group3 :: "string \<Rightarrow> string" where
  "group3 (a # b # c # d # ds) = a # b # c # CHR '','' # group3 (d # ds)"
| "group3 ds = ds"

definition round_half_even :: "rat \<Rightarrow> int" where
  "round_half_even q =
     (let f = \<lfloor>q\<rfloor>; d = q - of_int f
      in if d < 1 / 2 then f else if 1 / 2 < d then f + 1 else if even f then f else f + 1)"

text \<open>
  \<open>format(x, ',.2f')\<close>: the exact value rounded to two decimals, ties to even, the
  integer digits grouped in threes.
\<close>

definition format_comma_2f :: "pyfloat \<Rightarrow> string" where
  "format_comma_2f x =
     (case x of
        NaN \<Rightarrow> ''nan''
      | PosInf \<Rightarrow> ''inf''
      | NegInf \<Rightarrow> ''-inf''
      | Finite q \<Rightarrow>
          (let n = nat (round_half_even (\<bar>q\<bar> * 100))
           in (if q < 0 then ''-'' else []) @ rev (group3 (rev (decimal (n div 100))))
              @ ''.'' @ [digit (n div 10), digit n]))"

text \<open>\<open>str(x)\<close> inside an f-string, for an optional string.\<close>

definition py_str :: "string option \<Rightarrow> string" where
  "py_str x = (case x of None \<Rightarrow> ''None'' | Some s \<Rightarrow> s)"

definition str_bool :: "string option \<Rightarrow> bool" where
  "str_bool x = (case x of None \<Rightarrow> False | Some s \<Rightarrow> s \<noteq> [])"

definition obtener_resumen_cfdi :: "pylib \<Rightarrow> CFDIData \<Rightarrow> (string \<times> string option) list" where
  "obtener_resumen_cfdi L cfdi_data =
     [(''folio_completo'',
         if str_bool (serie cfdi_data)
         then Some (py_str (serie cfdi_data) @ ''-'' @ py_str (folio cfdi_data))
         else folio cfdi_data),
      (''fecha_emision'',
         case fecha_emision cfdi_data of None \<Rightarrow> None | Some d \<Rightarrow> Some (strftime L d ''%d/%m/%Y'')),
      (''emisor'', py_or (emisor_nombre cfdi_data) (emisor_rfc cfdi_data)),
      (''receptor'', py_or (receptor_nombre cfdi_data) (receptor_rfc cfdi_data)),
      (''total'',
         case total cfdi_data of
           None \<Rightarrow> None
         | Some t \<Rightarrow> if float_bool t
                     then Some (''$'' @ format_comma_2f t @ '' '' @ py_str (moneda cfdi_data))
                     else None),
      (''uuid'', uuid cfdi_data),
      (''archivo'', archivo_origen cfdi_data)]"

section \<open>mod_rutas\<close>

text \<open>
  \<open>Path.mkdir(parents=True, exist_ok=True)\<close>, walking the path from the node: an
  existing directory is entered, a missing one is created (listed last), a regular file
  on the way raises.
\<close>

fun mkdir :: "path \<Rightarrow> node \<Rightarrow> exn + node" where
  "mkdir [] n = (case n of Dir es \<Rightarrow> Inr n | File _ \<Rightarrow> Inl FileExistsError)"
| "mkdir (c # p) n =
     (case n of
        File _ \<Rightarrow> Inl NotADirectoryError
      | Dir es \<Rightarrow>
          (case map_of es c of
             None \<Rightarrow> (case mkdir p (Dir []) of Inl e \<Rightarrow> Inl e | Inr m \<Rightarrow> Inr (Dir (es @ [(c, m)])))
           | Some m \<Rightarrow> (case mkdir p m of Inl e \<Rightarrow> Inl e | Inr m' \<Rightarrow> Inr (Dir (AList.update c m' es)))))"

text \<open>The loop of \<open>init_directorios\<close>: an exception leaves it with what was created so far.\<close>

fun mkdir_bucle :: "path list \<Rightarrow> world \<Rightarrow> exn option \<times> world" where
  "mkdir_bucle [] w = (None, w)"
| "mkdir_bucle (directorio # resto) w =
     (case mkdir directorio (fs w) of
        Inl e \<Rightarrow> (Some e, w)
      | Inr n \<Rightarrow> mkdir_bucle resto (w\<lparr>fs := n\<rparr>))"

definition init_directorios :: "path \<Rightarrow> world \<Rightarrow> exn option \<times> world" where
  "init_directorios DIR_BASE w = mkdir_bucle [DIR_PROCESADAS DIR_BASE, DIR_PENDIENTES DIR_BASE] w"

section \<open>A concrete library\<close>

text \<open>
  An instance of the library on text of characters below 256, used to run the code on
  examples; no theorem about the code depends on it. Its
  \<open>strptime\<close> follows CPython's \<open>_strptime\<close>: the format becomes a regular expression
  (a directive is a list of alternatives, tried in order; a blank is \<open>\s+\<close>; a literal
  matches either case), the first match by backtracking must cover the whole string, and
  the fields must form a valid \<open>datetime\<close>.
\<close>

type_synonym alternative = "string list"

datatype item = Group char "alternative list" | Blanks

definition D09 :: string where "D09 = ''0123456789''"
definition D19 :: string where "D19 = ''123456789''"

text \<open>The characters below 256 that \<open>\s\<close> matches on a \<open>str\<close>.\<close>

definition blanks :: string where
  "blanks = [CHR '' '', CHR 0x09, CHR 0x0A, CHR 0x0B, CHR 0x0C, CHR 0x0D,
             CHR 0x1C, CHR 0x1D, CHR 0x1E, CHR 0x1F, CHR 0x85, CHR 0xA0]"

definition other_case :: "char \<Rightarrow> char" where
  "other_case c =
     (case find (\<lambda>(a, b). a = c) (zip (''ABCDEFGHIJKLMNOPQRSTUVWXYZ'' @ ''abcdefghijklmnopqrstuvwxyz'')
                                      (''abcdefghijklmnopqrstuvwxyz'' @ ''ABCDEFGHIJKLMNOPQRSTUVWXYZ'')) of
        None \<Rightarrow> c | Some (a, b) \<Rightarrow> b)"

fun directive :: "char \<Rightarrow> item option" where
  "directive c =
     (if c = CHR ''Y'' then Some (Group c [[D09, D09, D09, D09]])
      else if c = CHR ''m'' then Some (Group c [[''1'', ''012''], [''0'', D19], [D19]])
      else if c = CHR ''d'' then Some (Group c [[''3'', ''01''], [''12'', D09], [''0'', D19], [D19], ['' '', D19]])
      else if c = CHR ''H'' then Some (Group c [[''2'', ''0123''], [''01'', D09], [D09]])
      else if c = CHR ''M'' then Some (Group c [[''012345'', D09], [D09]])
      else if c = CHR ''S'' then Some (Group c [[''6'', ''01''], [''012345'', D09], [D09]])
      else if c = CHR ''f'' then Some (Group c (map (\<lambda>k. replicate k D09) [6, 5, 4, 3, 2, 1]))
      else None)"

fun compile_format :: "string \<Rightarrow> item list option" where
  "compile_format [] = Some []"
| "compile_format [c] =
     (if c = CHR ''%'' then None
      else if c \<in> set blanks then Some [Blanks]
      else Some [Group CHR ''.'' [[[c, other_case c]]]])"
| "compile_format (c # c' # cs) =
     (if c = CHR ''%'' then
        (case directive c' of None \<Rightarrow> None
         | Some i \<Rightarrow> map_option ((#) i) (compile_format cs))
      else if c \<in> set blanks then
        (if c' \<in> set blanks then compile_format (c' # cs)
         else map_option ((#) Blanks) (compile_format (c' # cs)))
      else map_option ((#) (Group CHR ''.'' [[[c, other_case c]]])) (compile_format (c' # cs)))"

fun match_alternative :: "alternative \<Rightarrow> string \<Rightarrow> bool" where
  "match_alternative [] s = True"
| "match_alternative (cl # cls) [] = False"
| "match_alternative (cl # cls) (c # s) = (c \<in> set cl \<and> match_alternative cls s)"

text \<open>The alternatives an item offers on the text ahead: \<open>\s+\<close> is greedy.\<close>

definition alternatives :: "item \<Rightarrow> string \<Rightarrow> alternative list" where
  "alternatives i s =
     (case i of
        Group k as \<Rightarrow> as
      | Blanks \<Rightarrow> map (\<lambda>k. replicate k blanks) (rev [1 ..< Suc (length (takeWhile (\<lambda>c. c \<in> set blanks) s))]))"

definition item_key :: "item \<Rightarrow> char" where
  "item_key i = (case i of Group k as \<Rightarrow> k | Blanks \<Rightarrow> CHR ''.'')"

text \<open>
  The first match in the order of a backtracking matcher: the captured groups and the
  text left over.
\<close>

fun rx_match :: "item list \<Rightarrow> string \<Rightarrow> ((char \<times> string) list \<times> string) option"
and rx_try :: "char \<Rightarrow> alternative list \<Rightarrow> item list \<Rightarrow> string \<Rightarrow> ((char \<times> string) list \<times> string) option" where
  "rx_match [] s = Some ([], s)"
| "rx_match (i # is) s = rx_try (item_key i) (alternatives i s) is s"
| "rx_try k [] is s = None"
| "rx_try k (a # as) is s =
     (if match_alternative a s then
        (case rx_match is (drop (length a) s) of
           Some (caps, rest) \<Rightarrow> Some ((k, take (length a) s) # caps, rest)
         | None \<Rightarrow> rx_try k as is s)
      else rx_try k as is s)"

fun int_of :: "string \<Rightarrow> nat" where
  "int_of s = foldl (\<lambda>n c. if c = CHR '' '' then n else 10 * n + length (takeWhile (\<lambda>d. d \<noteq> c) D09)) 0 s"

definition field :: "(char \<times> string) list \<Rightarrow> char \<Rightarrow> nat \<Rightarrow> nat" where
  "field caps k d = (case map_of caps k of None \<Rightarrow> d | Some s \<Rightarrow> int_of s)"

definition days_in_month :: "nat \<Rightarrow> nat \<Rightarrow> nat" where
  "days_in_month y m =
     (if m = 2 then (if y mod 400 = 0 then 29 else if y mod 100 = 0 then 28
                     else if y mod 4 = 0 then 29 else 28)
      else if m \<in> {4, 6, 9, 11} then 30 else 31)"

definition strptime_ascii :: "string \<Rightarrow> string \<Rightarrow> datetime option" where
  "strptime_ascii s fmt =
     (case compile_format fmt of
        None \<Rightarrow> None
      | Some is \<Rightarrow>
          (case rx_match is s of
             None \<Rightarrow> None
           | Some (caps, rest) \<Rightarrow>
               if rest \<noteq> [] then None
               else
                 (let y = field caps CHR ''Y'' 1900; m = field caps CHR ''m'' 1;
                      d = field caps CHR ''d'' 1; sec = field caps CHR ''S'' 0;
                      us = (case map_of caps CHR ''f'' of None \<Rightarrow> 0
                            | Some f \<Rightarrow> int_of (f @ replicate (6 - length f) CHR ''0''))
                  in if y < 1 \<or> days_in_month y m < d \<or> 59 < sec then None
                     else Some \<lparr>year = y, month = m, day = d, hour = field caps CHR ''H'' 0,
                                minute = field caps CHR ''M'' 0, second = sec, microsecond = us\<rparr>)))"

text \<open>
  A stand-in for \<open>float\<close>. On \<open>[+-]digits[.digits]\<close> and \<open>[+-].digits\<close> it gives the
  exact decimal value, which is what \<open>float\<close> gives when that value is a double; it
  rejects every other string, also those \<open>float\<close> accepts (exponents, \<open>inf\<close>,
  \<open>nan\<close>, underscores, surrounding blanks). The examples apply it to \<open>100\<close>,
  \<open>10\<close>, \<open>11.5\<close>, \<open>1000.00\<close>, \<open>1234.50\<close> and \<open>abc\<close> only, where it agrees
  with \<open>float\<close>.
\<close>

definition float_ascii :: "string \<Rightarrow> pyfloat option" where
  "float_ascii s =
     (let neg = (s \<noteq> [] \<and> hd s = CHR ''-'');
          u = (if s \<noteq> [] \<and> hd s \<in> set ''+-'' then tl s else s);
          ip = takeWhile (\<lambda>c. c \<in> set D09) u;
          r = dropWhile (\<lambda>c. c \<in> set D09) u;
          fp = (if r \<noteq> [] \<and> hd r = CHR ''.'' then tl r else [])
      in if r \<noteq> [] \<and> hd r \<noteq> CHR ''.'' then None
         else if list_ex (\<lambda>c. c \<notin> set D09) fp then None
         else if ip = [] \<and> fp = [] then None
         else Some (Finite ((if neg then - 1 else 1) *
                (of_nat (int_of (ip @ fp)) / of_nat (10 ^ length fp)))))"

text \<open>
  \<open>strftime\<close> with the directives \<open>%d\<close>, \<open>%m\<close> (two digits) and \<open>%Y\<close> (the year
  in decimal, not padded, as glibc writes it); anything else is copied.
\<close>

fun strftime_ascii :: "datetime \<Rightarrow> string \<Rightarrow> string" where
  "strftime_ascii d [] = []"
| "strftime_ascii d [c] = [c]"
| "strftime_ascii d (c # c' # cs) =
     (if c = CHR ''%'' then
        (if c' = CHR ''d'' then [digit (day d div 10), digit (day d)]
         else if c' = CHR ''m'' then [digit (month d div 10), digit (month d)]
         else if c' = CHR ''Y'' then decimal (year d)
         else [c, c']) @ strftime_ascii d cs
      else c # strftime_ascii d (c' # cs))"

definition python :: pylib where
  "python = \<lparr>py_float = float_ascii, strptime = strptime_ascii, strftime = strftime_ascii\<rparr>"


section \<open>Notions of the specification\<close>

text \<open>
  The order of the date formats as the specification lists them: ISO with seconds, ISO
  with fractional seconds, space-separated, date only.
\<close>

definition formatos_spec :: "string list" where
  "formatos_spec = [''%Y-%m-%dT%H:%M:%S'', ''%Y-%m-%dT%H:%M:%S.%f'', ''%Y-%m-%d %H:%M:%S'', ''%Y-%m-%d'']"

text \<open>The value \<open>_convertir_fecha\<close> returns, apart from what it prints.\<close>

definition fecha_de :: "pylib \<Rightarrow> string option \<Rightarrow> datetime option" where
  "fecha_de L x =
     (case x of None \<Rightarrow> None | Some s \<Rightarrow> if s = [] then None else probar_formatos L s formatos)"

text \<open>
  The same document under other attribute names: every attribute key of the tree is
  renamed, values, tags and structure are kept. \<open>minuscula\<close> gives the lowercase-initial
  form of the names the v3.3 mapping looks up in both forms; \<open>minuscula_moneda\<close> does
  so for the currency as well.
\<close>

fun renombrar :: "(string \<Rightarrow> string) \<Rightarrow> element \<Rightarrow> element" where
  "renombrar f (Element t a cs) = Element t (map (\<lambda>(k, v). (f k, v)) a) (map (renombrar f) cs)"

definition minuscula :: "string \<Rightarrow> string" where
  "minuscula k =
     (if k = ''Folio'' then ''folio'' else if k = ''Serie'' then ''serie''
      else if k = ''Total'' then ''total'' else if k = ''SubTotal'' then ''subTotal''
      else if k = ''Fecha'' then ''fecha'' else if k = ''Rfc'' then ''rfc''
      else if k = ''Nombre'' then ''nombre'' else k)"

definition minuscula_moneda :: "string \<Rightarrow> string" where
  "minuscula_moneda k = (if k = ''Moneda'' then ''moneda'' else minuscula k)"

text \<open>
  An element that spells the listed names in PascalCase only, and gives none of the four
  text attributes an empty value.
\<close>

definition pascal :: "element \<Rightarrow> bool" where
  "pascal e =
     (list_all (\<lambda>k. get e k = None) [''folio'', ''serie'', ''total'', ''subTotal'', ''fecha'', ''rfc'', ''nombre'']
      \<and> list_all (\<lambda>k. get e k \<noteq> Some []) [''Folio'', ''Serie'', ''Rfc'', ''Nombre''])"

text \<open>The element with one attribute set to a value.\<close>

definition set_attr :: "string \<Rightarrow> string \<Rightarrow> element \<Rightarrow> element" where
  "set_attr k v e = Element (tag e) (AList.update k v (attrib e)) (children e)"

text \<open>The prefixes of a path: the directory itself and its parents.\<close>

definition ancestros :: "path \<Rightarrow> path list" where
  "ancestros p = map (\<lambda>k. take k p) [0 ..< Suc (length p)]"

section \<open>Examples\<close>


definition ejemplo_v3 :: element where
  "ejemplo_v3 = Element ''{http://www.sat.gob.mx/cfd/3}Comprobante''
     [(''Version'', ''3.3''), (''Serie'', ''B''), (''Folio'', ''7''),
      (''Fecha'', ''2020-02-29 08:00:00''), (''SubTotal'', ''10''),
      (''Moneda'', ''USD''), (''Total'', ''11.5'')]
     [Element ''{http://www.sat.gob.mx/cfd/3}Emisor''
        [(''Rfc'', ''AAA010101AAA''), (''Nombre'', ''ACME'')] [],
      Element ''{http://www.sat.gob.mx/cfd/3}Receptor''
        [(''Rfc'', ''BBB020202BBB''), (''Nombre'', ''Cliente'')] []]"

definition ejemplo_sin_version :: element where
  "ejemplo_sin_version = Element ''Comprobante'' [(''Total'', ''100'')] []"

definition ejemplo_v2 :: element where
  "ejemplo_v2 = Element ''Comprobante'' [(''Version'', ''2.0''), (''Total'', ''100'')] []"

definition pendientes :: path where
  "pendientes = [''app'', ''data'', ''facturas_pendientes'']"

definition mundo :: world where
  "mundo = \<lparr>fs = Dir [(''app'', Dir [(''data'', Dir [(''facturas_pendientes'', Dir
                [(''roto.xml'', File NotWellFormed),
                 (''a.xml'', File (Document ejemplo_sin_version)),
                 (''notas.txt'', File NotWellFormed),
                 (''viejo.xml'', File (Document ejemplo_v2)),
                 (''b.xml'', File (Document (set_attr ''Total'' ''abc'' ejemplo_sin_version)))])])])],
             stdout = []\<rparr>"

definition registro_v4 :: CFDIData where
  "registro_v4 = \<lparr>folio = Some ''123'', serie = Some ''A'',
     fecha_emision = Some \<lparr>year = 2024, month = 1, day = 15, hour = 10, minute = 30, second = 0,
                            microsecond = 0\<rparr>,
     total = Some (Finite (2469 / 2)), subtotal = Some (Finite 1000), moneda = Some ''USD'',
     emisor_rfc = Some ''AAA010101AAA'', emisor_nombre = Some ''ACME'', emisor_regimen = Some ''601'',
     receptor_rfc = Some ''BBB020202BBB'', receptor_nombre = Some ''Cliente'',
     uuid = Some ''6F9619FF'',
     fecha_timbrado = Some \<lparr>year = 2024, month = 1, day = 15, hour = 10, minute = 31, second = 0,
                             microsecond = 0\<rparr>,
     version = Some ''4.0'', archivo_origen = Some ''f.xml''\<rparr>"



definition registro_v3 :: CFDIData where
  "registro_v3 = \<lparr>folio = Some ''7'', serie = Some ''B'',
     fecha_emision = Some \<lparr>year = 2020, month = 2, day = 29, hour = 8, minute = 0, second = 0,
                            microsecond = 0\<rparr>,
     total = Some (Finite (23 / 2)), subtotal = Some (Finite 10), moneda = Some ''USD'',
     emisor_rfc = Some ''AAA010101AAA'', emisor_nombre = Some ''ACME'', emisor_regimen = None,
     receptor_rfc = Some ''BBB020202BBB'', receptor_nombre = Some ''Cliente'',
     uuid = None, fecha_timbrado = None,
     version = Some ''3.3'', archivo_origen = Some ''f.xml''\<rparr>"



text \<open>
  A stream with the ASCII encoding (\<open>PYTHONIOENCODING=ascii\<close>, the \<open>C\<close> locale of
  older interpreters). Of the lines the code prints it cannot write one that holds a path
  or a date with a character above 127, nor the line of an unsupported version: the
  message of its \<open>ValueError\<close> spells \<open>Version\<close> with an accented o.
\<close>

definition es_ascii :: "string \<Rightarrow> bool" where
  "es_ascii s = list_all (\<lambda>c. of_char c < (128 :: nat)) s"

definition flujo_ascii :: "diag \<Rightarrow> bool" where
  "flujo_ascii d =
     (case d of
        Error_al_parsear p e \<Rightarrow>
          list_all es_ascii p \<and> (case e of ValueError_version v \<Rightarrow> False | _ \<Rightarrow> True)
      | No_se_pudo_convertir_la_fecha s \<Rightarrow> es_ascii s)"

definition mundo_vacio :: world where
  "mundo_vacio = \<lparr>fs = Dir [], stdout = []\<rparr>"

definition mundo_listo :: world where
  "mundo_listo = \<lparr>fs = Dir [(''app'', Dir [(''data'', Dir [(''facturas_procesadas'', Dir []),
                                                           (''facturas_pendientes'', Dir [])])])],
                  stdout = []\<rparr>"

section \<open>Properties\<close>

subsection \<open>Extraction leaves the file system alone\<close>

lemma convertir_fecha_fs: "fs (snd (convertir_fecha L x w)) = fs w"
  by (simp add: convertir_fecha_def print_def split: option.splits)

lemma extraer_timbre_fs: "fs (snd (extraer_timbre_fiscal L r c w)) = fs w"
  by (simp add: extraer_timbre_fiscal_def Let_def convertir_fecha_fs split: option.splits prod.splits)
    (metis convertir_fecha_fs snd_conv)

lemma parsear_v4_fs: "fs (snd (parsear_cfdi_v4 L r a w)) = fs w"
  by (simp add: parsear_cfdi_v4_def Let_def extraer_timbre_fs split: prod.splits)
    (metis convertir_fecha_fs snd_conv)

lemma parsear_v3_fs: "fs (snd (parsear_cfdi_v3 L r a w)) = fs w"
  by (simp add: parsear_cfdi_v3_def Let_def extraer_timbre_fs split: prod.splits)
    (metis convertir_fecha_fs snd_conv)

lemma parsear_try_fs: "fs (snd (parsear_archivo_try L p w)) = fs w"
  by (simp add: parsear_archivo_try_def Let_def split: sum.splits prod.splits)
     (metis parsear_v4_fs parsear_v3_fs snd_conv)

lemma parsear_archivo_fs: "fs (snd (parsear_archivo L p w)) = fs w"
proof -
  obtain r w1 where t: "parsear_archivo_try L p w = (r, w1)"
    by (cases "parsear_archivo_try L p w")
  then have "fs w1 = fs w"
    using parsear_try_fs [of L p w] by simp
  with t show ?thesis
    by (simp add: parsear_archivo_def print_def split: sum.splits)
qed

subsection \<open>The version field\<close>

lemma extraer_timbre_version: "version (fst (extraer_timbre_fiscal L r c w)) = version c"
  by (simp add: extraer_timbre_fiscal_def Let_def split: option.splits prod.splits)


lemma parsear_v3_version: "version (fst (parsear_cfdi_v3 L r a w)) = Some ''3.3''"
  by (simp add: parsear_cfdi_v3_def Let_def extraer_timbre_version split: prod.splits option.splits)

text \<open>What \<open>parsear_archivo\<close> does on a path that holds a well-formed document.\<close>

lemma parsear_archivo_doc:
  assumes "lookup p (fs w) = Some (File (Document r))"
  shows "parsear_archivo L p w =
     (if detectar_version r = ''4.0''
      then (Some (fst (parsear_cfdi_v4 L r p w)), snd (parsear_cfdi_v4 L r p w))
      else if detectar_version r = ''3.3''
      then (Some (fst (parsear_cfdi_v3 L r p w)), snd (parsear_cfdi_v3 L r p w))
      else (None, print (Error_al_parsear p (ValueError_version (detectar_version r))) w))"
  using assms
  by (simp add: parsear_archivo_def parsear_archivo_try_def exists_def ET_parse_def Let_def
      split: prod.splits)

subsection \<open>The summary\<close>

text \<open>
  C1. The claim: the summary's \<open>total\<close> entry is null exactly when the record's total is
  null, and a record whose total is 0.0 yields the formatted string. The code tests the
  total for truth, not for \<open>None\<close>: on a record with total 0.0 and currency MXN the
  entry is \<open>None\<close>, where the claim has \<open>$0.00 MXN\<close>.
\<close>

theorem resumen_total_cero:
  "map_of (obtener_resumen_cfdi L (CFDIData_init\<lparr>total := Some (Finite 0), moneda := Some ''MXN''\<rparr>))
     ''total'' = Some None"
  by (simp add: obtener_resumen_cfdi_def float_bool_def CFDIData_init_def)

text \<open>The entry is \<open>None\<close> for a null total and for a zero total, and for nothing else.\<close>

lemma resumen_total_None_iff:
  "map_of (obtener_resumen_cfdi L c) ''total'' = Some None
     \<longleftrightarrow> total c = None \<or> total c = Some (Finite 0)"
  by (auto simp add: obtener_resumen_cfdi_def float_bool_def split: option.splits)

text \<open>The summary of the v4.0 example record, under the concrete library.\<close>

lemma resumen_ejemplo:
  "obtener_resumen_cfdi python registro_v4 =
     [(''folio_completo'', Some ''A-123''), (''fecha_emision'', Some ''15/01/2024''),
      (''emisor'', Some ''ACME''), (''receptor'', Some ''Cliente''),
      (''total'', Some ''$1,234.50 USD''), (''uuid'', Some ''6F9619FF''), (''archivo'', Some ''f.xml'')]"
  by (simp add: obtener_resumen_cfdi_def registro_v4_def float_bool_def format_comma_2f_def
      round_half_even_def Let_def decimal.simps digit_def py_str_def str_bool_def py_or_def python_def)

subsection \<open>The code on the examples\<close>

lemma float_100: "float_ascii ''100'' = Some (Finite 100)"
  by (simp add: float_ascii_def D09_def Let_def)


lemma lookup_a: "lookup (pendientes @ [''a.xml'']) (fs mundo) = Some (File (Document ejemplo_sin_version))"
  by (simp add: mundo_def pendientes_def)


lemma lookup_viejo: "lookup (pendientes @ [''viejo.xml'']) (fs mundo) = Some (File (Document ejemplo_v2))"
  by (simp add: mundo_def pendientes_def)

lemma lookup_roto: "lookup (pendientes @ [''roto.xml'']) (fs mundo) = Some (File NotWellFormed)"
  by (simp add: mundo_def pendientes_def)

lemma lookup_falta: "lookup (pendientes @ [''falta.xml'']) (fs mundo) = None"
  by (simp add: mundo_def pendientes_def)

lemma version_a: "detectar_version ejemplo_sin_version = ''3.3''"
  by (simp add: detectar_version_def ejemplo_sin_version_def startswith_def ns_cfdi4_def ns_cfdi3_def get_default_def)


lemma version_viejo: "detectar_version ejemplo_v2 = ''2.0''"
  by (simp add: detectar_version_def ejemplo_v2_def startswith_def ns_cfdi4_def ns_cfdi3_def get_default_def)

lemma v3_a: "parsear_cfdi_v3 python ejemplo_sin_version (pendientes @ [''a.xml'']) mundo =
   (CFDIData_init\<lparr>total := Some (Finite 100), moneda := Some ''MXN'', version := Some ''3.3'',
      archivo_origen := Some ''a.xml''\<rparr>, mundo)"
  by (simp add: parsear_cfdi_v3_def ejemplo_sin_version_def get_def get_default_def py_or_def
      convertir_a_float_def convertir_fecha_def find_child_def extraer_timbre_fiscal_def
      find_descendant_def name_def pendientes_def python_def float_100 CFDIData_init_def)


subsection \<open>Version detection\<close>

text \<open>
  C4. The version is "4.0" when the root tag starts with the v4 namespace, else "3.3" when
  it starts with the v3 namespace, else the value of the root's \<open>Version\<close> attribute,
  "3.3" when there is none; so a document with neither namespace nor \<open>Version\<close> is
  parsed by the v3.3 mapping and returned with version "3.3".
\<close>

theorem detectar_version_orden:
  "(startswith (tag r) ns_cfdi4 \<longrightarrow> detectar_version r = ''4.0'') \<and>
   (\<not> startswith (tag r) ns_cfdi4 \<and> startswith (tag r) ns_cfdi3 \<longrightarrow> detectar_version r = ''3.3'') \<and>
   (\<not> startswith (tag r) ns_cfdi4 \<and> \<not> startswith (tag r) ns_cfdi3 \<longrightarrow>
      detectar_version r = (case get r ''Version'' of None \<Rightarrow> ''3.3'' | Some v \<Rightarrow> v)) \<and>
   (\<not> startswith (tag r) ns_cfdi4 \<and> \<not> startswith (tag r) ns_cfdi3 \<and> get r ''Version'' = None \<and>
    lookup p (fs w) = Some (File (Document r)) \<longrightarrow>
      parsear_archivo L p w = (Some (fst (parsear_cfdi_v3 L r p w)), snd (parsear_cfdi_v3 L r p w)) \<and>
      version (fst (parsear_cfdi_v3 L r p w)) = Some ''3.3'')"
proof -
  have a: "startswith (tag r) ns_cfdi4 \<longrightarrow> detectar_version r = ''4.0''"
    by (simp add: detectar_version_def)
  have b: "\<not> startswith (tag r) ns_cfdi4 \<and> startswith (tag r) ns_cfdi3 \<longrightarrow> detectar_version r = ''3.3''"
    by (simp add: detectar_version_def)
  have c: "\<not> startswith (tag r) ns_cfdi4 \<and> \<not> startswith (tag r) ns_cfdi3 \<longrightarrow>
      detectar_version r = (case get r ''Version'' of None \<Rightarrow> ''3.3'' | Some v \<Rightarrow> v)"
    by (simp add: detectar_version_def get_default_def get_def)
  have d: "\<not> startswith (tag r) ns_cfdi4 \<and> \<not> startswith (tag r) ns_cfdi3 \<and> get r ''Version'' = None \<and>
    lookup p (fs w) = Some (File (Document r)) \<longrightarrow>
      parsear_archivo L p w = (Some (fst (parsear_cfdi_v3 L r p w)), snd (parsear_cfdi_v3 L r p w)) \<and>
      version (fst (parsear_cfdi_v3 L r p w)) = Some ''3.3''"
  proof (intro impI, elim conjE)
    assume h: "\<not> startswith (tag r) ns_cfdi4" "\<not> startswith (tag r) ns_cfdi3" "get r ''Version'' = None"
      and f: "lookup p (fs w) = Some (File (Document r))"
    from h have v: "detectar_version r = ''3.3''"
      by (simp add: detectar_version_def get_default_def get_def)
    show "parsear_archivo L p w = (Some (fst (parsear_cfdi_v3 L r p w)), snd (parsear_cfdi_v3 L r p w)) \<and>
      version (fst (parsear_cfdi_v3 L r p w)) = Some ''3.3''"
      by (simp add: parsear_archivo_doc [OF f] v parsear_v3_version)
  qed
  from a b c d show ?thesis by blast
qed

theorem detectar_version_orden_witness:
  "\<not> startswith (tag ejemplo_sin_version) ns_cfdi4 \<and> \<not> startswith (tag ejemplo_sin_version) ns_cfdi3 \<and>
   get ejemplo_sin_version ''Version'' = None \<and>
   lookup (pendientes @ [''a.xml'']) (fs mundo) = Some (File (Document ejemplo_sin_version)) \<and>
   detectar_version ejemplo_sin_version = ''3.3'' \<and>
   parsear_archivo python (pendientes @ [''a.xml'']) mundo =
     (Some (CFDIData_init\<lparr>total := Some (Finite 100), moneda := Some ''MXN'', version := Some ''3.3'',
        archivo_origen := Some ''a.xml''\<rparr>), mundo)"
proof -
  have h: "\<not> startswith (tag ejemplo_sin_version) ns_cfdi4 \<and> \<not> startswith (tag ejemplo_sin_version) ns_cfdi3 \<and>
      get ejemplo_sin_version ''Version'' = None \<and>
      lookup (pendientes @ [''a.xml'']) (fs mundo) = Some (File (Document ejemplo_sin_version))"
    by (simp add: lookup_a ejemplo_sin_version_def startswith_def ns_cfdi4_def ns_cfdi3_def get_def)
  with detectar_version_orden [of ejemplo_sin_version "pendientes @ [''a.xml'']" mundo python]
  show ?thesis
    by (simp add: v3_a)
qed



subsection \<open>The values the mapping routines return\<close>

lemma convertir_fecha_fst: "fst (convertir_fecha L x w) = fecha_de L x"
  by (simp add: convertir_fecha_def fecha_de_def split: option.splits)

lemma extraer_timbre_fst:
  "fst (extraer_timbre_fiscal L r c w) =
     (case find_descendant r (ns_tfd @ ''TimbreFiscalDigital'') of
        None \<Rightarrow> c
      | Some t \<Rightarrow> c\<lparr>uuid := get t ''UUID'', fecha_timbrado := fecha_de L (get t ''FechaTimbrado'')\<rparr>)"
  by (simp add: extraer_timbre_fiscal_def Let_def case_prod_beta convertir_fecha_fst split: option.splits)

lemma parsear_v4_fst:
  "fst (parsear_cfdi_v4 L r a w) =
     (let c0 = CFDIData_init\<lparr>version := Some ''4.0'', archivo_origen := Some (name a),
                 folio := get r ''Folio'', serie := get r ''Serie'',
                 total := convertir_a_float L (get r ''Total''),
                 subtotal := convertir_a_float L (get r ''SubTotal''),
                 moneda := Some (get_default r ''Moneda'' ''MXN''),
                 fecha_emision := fecha_de L (get r ''Fecha'')\<rparr>;
          c1 = (case find_child r (ns_cfdi4 @ ''Emisor'') of None \<Rightarrow> c0
                | Some e \<Rightarrow> c0\<lparr>emisor_rfc := get e ''Rfc'', emisor_nombre := get e ''Nombre'',
                              emisor_regimen := get e ''RegimenFiscal''\<rparr>);
          c2 = (case find_child r (ns_cfdi4 @ ''Receptor'') of None \<Rightarrow> c1
                | Some e \<Rightarrow> c1\<lparr>receptor_rfc := get e ''Rfc'', receptor_nombre := get e ''Nombre''\<rparr>)
      in (case find_descendant r (ns_tfd @ ''TimbreFiscalDigital'') of
            None \<Rightarrow> c2
          | Some t \<Rightarrow> c2\<lparr>uuid := get t ''UUID'', fecha_timbrado := fecha_de L (get t ''FechaTimbrado'')\<rparr>))"
  by (simp add: parsear_cfdi_v4_def Let_def case_prod_beta convertir_fecha_fst extraer_timbre_fst
      split: option.splits)

lemma parsear_v3_fst:
  "fst (parsear_cfdi_v3 L r a w) =
     (let c0 = CFDIData_init\<lparr>version := Some ''3.3'', archivo_origen := Some (name a),
                 folio := py_or (get r ''folio'') (get r ''Folio''),
                 serie := py_or (get r ''serie'') (get r ''Serie''),
                 total := convertir_a_float L (py_or (get r ''total'') (get r ''Total'')),
                 subtotal := convertir_a_float L (py_or (get r ''subTotal'') (get r ''SubTotal'')),
                 moneda := Some (get_default r ''Moneda'' ''MXN''),
                 fecha_emision := fecha_de L (py_or (get r ''fecha'') (get r ''Fecha''))\<rparr>;
          c1 = (case find_child r (ns_cfdi3 @ ''Emisor'') of None \<Rightarrow> c0
                | Some e \<Rightarrow> c0\<lparr>emisor_rfc := py_or (get e ''rfc'') (get e ''Rfc''),
                              emisor_nombre := py_or (get e ''nombre'') (get e ''Nombre'')\<rparr>);
          c2 = (case find_child r (ns_cfdi3 @ ''Receptor'') of None \<Rightarrow> c1
                | Some e \<Rightarrow> c1\<lparr>receptor_rfc := py_or (get e ''rfc'') (get e ''Rfc''),
                              receptor_nombre := py_or (get e ''nombre'') (get e ''Nombre'')\<rparr>)
      in (case find_descendant r (ns_tfd @ ''TimbreFiscalDigital'') of
            None \<Rightarrow> c2
          | Some t \<Rightarrow> c2\<lparr>uuid := get t ''UUID'', fecha_timbrado := fecha_de L (get t ''FechaTimbrado'')\<rparr>))"
  by (simp add: parsear_cfdi_v3_def Let_def case_prod_beta convertir_fecha_fst extraer_timbre_fst
      split: option.splits)

subsection \<open>The concrete library on the examples\<close>




lemma strptime_espacio: "map (strptime_ascii ''2020-02-29 08:00:00'') formatos =
    [None, Some \<lparr>year = 2020, month = 2, day = 29, hour = 8, minute = 0, second = 0, microsecond = 0\<rparr>, None, None]"
  by code_simp







lemma float_10: "float_ascii ''10'' = Some (Finite 10)"
  by (simp add: float_ascii_def D09_def Let_def)

lemma float_115: "float_ascii ''11.5'' = Some (Finite (23 / 2))"
  by (simp add: float_ascii_def D09_def Let_def)

lemma fecha_espacio: "fecha_de python (Some ''2020-02-29 08:00:00'') =
    Some \<lparr>year = 2020, month = 2, day = 29, hour = 8, minute = 0, second = 0, microsecond = 0\<rparr>"
proof -
  have "map (strptime python ''2020-02-29 08:00:00'') formatos =
    [None, Some \<lparr>year = 2020, month = 2, day = 29, hour = 8, minute = 0, second = 0, microsecond = 0\<rparr>, None, None]"
    using strptime_espacio by (simp add: python_def)
  then show ?thesis
    by (simp add: fecha_de_def formatos_def)
qed

lemma v3_f: "fst (parsear_cfdi_v3 python ejemplo_v3 [''f.xml''] mundo_vacio) = registro_v3"
  by (simp add: parsear_v3_fst Let_def find_child_def find_descendant_def get_def get_default_def
      py_or_def convertir_a_float_def ejemplo_v3_def ns_cfdi3_def ns_tfd_def name_def
      python_def
      float_10 float_115 fecha_espacio [unfolded python_def] registro_v3_def CFDIData_init_def)

subsection \<open>Whole-record failures\<close>

text \<open>
  On a stream that writes every line \<open>parsear_archivo\<close> returns to its caller on
  every path: a missing file, a file that is not well-formed XML and a document of an
  unsupported version each give \<open>None\<close> and one printed line; whatever exception leaves
  the \<open>try\<close> block is turned into \<open>None\<close> and a printed line; and a \<open>None\<close> result
  always comes with that line.
\<close>

lemma parsear_archivo_absorbe:
  "(lookup p (fs w) = None \<longrightarrow>
      parsear_archivo L p w = (None, print (Error_al_parsear p (FileNotFoundError p)) w)) \<and>
   (lookup p (fs w) = Some (File NotWellFormed) \<longrightarrow>
      parsear_archivo L p w = (None, print (Error_al_parsear p ParseError) w)) \<and>
   (lookup p (fs w) = Some (File (Document r)) \<and> detectar_version r \<noteq> ''4.0'' \<and> detectar_version r \<noteq> ''3.3'' \<longrightarrow>
      parsear_archivo L p w = (None, print (Error_al_parsear p (ValueError_version (detectar_version r))) w)) \<and>
   (parsear_archivo_try L p w = (Inl e, w1) \<longrightarrow>
      parsear_archivo L p w = (None, print (Error_al_parsear p e) w1)) \<and>
   (fst (parsear_archivo L p w) = None \<longrightarrow>
      (\<exists>x. snd (parsear_archivo L p w) = print (Error_al_parsear p x) w))"
proof (intro conjI impI)
  assume "lookup p (fs w) = None"
  then show "parsear_archivo L p w = (None, print (Error_al_parsear p (FileNotFoundError p)) w)"
    by (simp add: parsear_archivo_def parsear_archivo_try_def exists_def)
next
  assume "lookup p (fs w) = Some (File NotWellFormed)"
  then show "parsear_archivo L p w = (None, print (Error_al_parsear p ParseError) w)"
    by (simp add: parsear_archivo_def parsear_archivo_try_def exists_def ET_parse_def)
next
  assume "lookup p (fs w) = Some (File (Document r)) \<and> detectar_version r \<noteq> ''4.0'' \<and> detectar_version r \<noteq> ''3.3''"
  then show "parsear_archivo L p w = (None, print (Error_al_parsear p (ValueError_version (detectar_version r))) w)"
    by (simp add: parsear_archivo_doc)
next
  assume "parsear_archivo_try L p w = (Inl e, w1)"
  then show "parsear_archivo L p w = (None, print (Error_al_parsear p e) w1)"
    by (simp add: parsear_archivo_def)
next
  assume n: "fst (parsear_archivo L p w) = None"
  show "\<exists>x. snd (parsear_archivo L p w) = print (Error_al_parsear p x) w"
  proof (cases "lookup p (fs w)")
    case None
    then show ?thesis
      by (auto simp add: parsear_archivo_def parsear_archivo_try_def exists_def)
  next
    case (Some n)
    show ?thesis
    proof (cases n)
      case (Dir es)
      with Some show ?thesis
        by (auto simp add: parsear_archivo_def parsear_archivo_try_def exists_def ET_parse_def)
    next
      case (File ct)
      show ?thesis
      proof (cases ct)
        case NotWellFormed
        with File Some show ?thesis
          by (auto simp add: parsear_archivo_def parsear_archivo_try_def exists_def ET_parse_def)
      next
        case (Document d)
        with File Some have f: "lookup p (fs w) = Some (File (Document d))" by simp
        from n show ?thesis
          unfolding parsear_archivo_doc [OF f]
          by (auto split: if_splits)
      qed
    qed
  qed
qed

lemma parsear_archivo_absorbe_ejemplos:
  "lookup (pendientes @ [''falta.xml'']) (fs mundo) = None \<and>
   parsear_archivo python (pendientes @ [''falta.xml'']) mundo =
     (None, print (Error_al_parsear (pendientes @ [''falta.xml'']) (FileNotFoundError (pendientes @ [''falta.xml'']))) mundo) \<and>
   lookup (pendientes @ [''roto.xml'']) (fs mundo) = Some (File NotWellFormed) \<and>
   parsear_archivo python (pendientes @ [''roto.xml'']) mundo =
     (None, print (Error_al_parsear (pendientes @ [''roto.xml'']) ParseError) mundo) \<and>
   lookup (pendientes @ [''viejo.xml'']) (fs mundo) = Some (File (Document ejemplo_v2)) \<and>
   detectar_version ejemplo_v2 = ''2.0'' \<and>
   parsear_archivo python (pendientes @ [''viejo.xml'']) mundo =
     (None, print (Error_al_parsear (pendientes @ [''viejo.xml'']) (ValueError_version ''2.0'')) mundo)"
proof -
  note t1 = parsear_archivo_absorbe [where L = python and p = "pendientes @ [''falta.xml'']" and w = mundo]
  note t2 = parsear_archivo_absorbe [where L = python and p = "pendientes @ [''roto.xml'']" and w = mundo]
  note t3 = parsear_archivo_absorbe [where L = python and p = "pendientes @ [''viejo.xml'']" and w = mundo
      and r = ejemplo_v2]
  from t1 t2 t3 show ?thesis
    by (simp add: lookup_falta lookup_roto lookup_viejo version_viejo)
qed

subsection \<open>Field coercions\<close>

lemma detectar_version_cong:
  assumes "tag r' = tag r" "get r' ''Version'' = get r ''Version''"
  shows "detectar_version r' = detectar_version r"
  using assms by (simp add: detectar_version_def get_default_def get_def)








text \<open>The same holds of the subtotal.\<close>

lemma subtotal_parcial:
  assumes "detectar_version r = ''4.0'' \<or> detectar_version r = ''3.3''"
    and "lookup p (fs w) = Some (File (Document r))"
    and "lookup p (fs w') = Some (File (Document r'))"
    and "tag r' = tag r" and "children r' = children r"
    and "\<And>k. k \<noteq> ''SubTotal'' \<Longrightarrow> k \<noteq> ''subTotal'' \<Longrightarrow> get r' k = get r k"
    and "convertir_a_float L (if detectar_version r = ''4.0'' then get r' ''SubTotal''
                              else py_or (get r' ''subTotal'') (get r' ''SubTotal'')) = None"
  shows "\<exists>c. fst (parsear_archivo L p w) = Some c \<and>
             fst (parsear_archivo L p w') = Some (c\<lparr>subtotal := None\<rparr>)"
proof -
  note g = assms(6)
  have v: "detectar_version r' = detectar_version r"
    by (rule detectar_version_cong) (simp_all add: assms(4) g)
  have gd: "\<And>k d. k \<noteq> ''SubTotal'' \<Longrightarrow> k \<noteq> ''subTotal'' \<Longrightarrow> get_default r' k d = get_default r k d"
    using g by (simp add: get_default_def get_def)
  have fc: "\<And>x. find_child r' x = find_child r x" "\<And>x. find_descendant r' x = find_descendant r x"
    by (simp_all add: find_child_def find_descendant_def assms(5))
  from assms(1) consider "detectar_version r = ''4.0''"
    | "detectar_version r \<noteq> ''4.0''" "detectar_version r = ''3.3''"
    by blast
  then show ?thesis
  proof cases
    case 1
    with assms(7) have n: "convertir_a_float L (get r' ''SubTotal'') = None" by simp
    show ?thesis
      by (simp add: parsear_archivo_doc [OF assms(2)] parsear_archivo_doc [OF assms(3)] v 1
          parsear_v4_fst g gd fc n Let_def split: option.splits)
  next
    case 2
    with assms(7) have n: "convertir_a_float L (py_or (get r' ''subTotal'') (get r' ''SubTotal'')) = None"
      by simp
    show ?thesis
      by (simp add: parsear_archivo_doc [OF assms(2)] parsear_archivo_doc [OF assms(3)] v 2
          parsear_v3_fst g gd fc n Let_def split: option.splits)
  qed
qed

subsection \<open>The space-separated and the fractional format\<close>






















subsection \<open>Date coercion\<close>





text \<open>
  The two orders return the same value on every string that the space-separated format
  and the fractional format do not both accept.
\<close>

lemma orden_indiferente:
  assumes "strptime L s ''%Y-%m-%d %H:%M:%S'' = None \<or> strptime L s ''%Y-%m-%dT%H:%M:%S.%f'' = None"
  shows "probar_formatos L s formatos = probar_formatos L s formatos_spec"
  using assms by (auto simp add: formatos_def formatos_spec_def split: option.splits)

section \<open>Directory initialisation\<close>

lemma mkdir_noop: "lookup p n = Some (Dir es) \<Longrightarrow> mkdir p n = Inr n"
proof (induction p arbitrary: n)
  case Nil
  then show ?case by simp
next
  case (Cons c p)
  then show ?case
    by (auto split: node.splits option.splits simp add: update_triv)
qed

lemma mkdir_dirs:
  "mkdir p n = Inr n' \<Longrightarrow> \<exists>es. lookup (take k p) n' = Some (Dir es)"
proof (induction p arbitrary: n n' k)
  case Nil
  then show ?case by (auto split: node.splits)
next
  case (Cons c p)
  show ?case
  proof (cases k)
    case 0
    with Cons.prems show ?thesis
      by (auto split: node.splits option.splits sum.splits)
  next
    case (Suc j)
    with Cons.prems Cons.IH [where k = j] show ?thesis
      by (auto split: node.splits option.splits sum.splits simp add: update_conv')
  qed
qed

lemma lookup_vacio: "lookup q (Dir []) = (if q = [] then Some (Dir []) else None)"
  by (cases q) simp_all

lemma mkdir_files:
  "mkdir p n = Inr n' \<Longrightarrow> lookup q n' = Some (File ct) \<longleftrightarrow> lookup q n = Some (File ct)"
proof (induction p arbitrary: n n' q)
  case Nil
  then show ?case by (auto split: node.splits)
next
  case (Cons c p)
  show ?case
  proof (cases q)
    case Nil
    with Cons.prems show ?thesis
      by (auto split: node.splits option.splits sum.splits)
  next
    case q: (Cons d q')
    from Cons.prems obtain es where n: "n = Dir es"
      by (cases n) simp_all
    show ?thesis
    proof (cases "map_of es c")
      case None
      with Cons.prems n obtain m where m: "mkdir p (Dir []) = Inr m" and n': "n' = Dir (es @ [(c, m)])"
        by (auto split: sum.splits)
      from Cons.IH [OF m, of q'] have "lookup q' m \<noteq> Some (File ct)"
        by (simp add: lookup_vacio)
      with None n n' q show ?thesis
        by (auto simp add: map_add_def split: option.splits)
    next
      case (Some m0)
      with Cons.prems n obtain m where m: "mkdir p m0 = Inr m" and n': "n' = Dir (AList.update c m es)"
        by (auto split: sum.splits)
      from Cons.IH [OF m, of q'] Some n n' q show ?thesis
        by (auto simp add: update_conv' split: option.splits)
    qed
  qed
qed

lemma mkdir_nuevos:
  "mkdir p n = Inr n' \<Longrightarrow> lookup q n = None \<Longrightarrow> lookup q n' \<noteq> None \<Longrightarrow> \<exists>k\<le>length p. q = take k p"
proof (induction p arbitrary: n n' q)
  case Nil
  then show ?case by (auto split: node.splits)
next
  case (Cons c p)
  show ?case
  proof (cases q)
    case Nil
    with Cons.prems show ?thesis by simp
  next
    case q: (Cons d q')
    from Cons.prems obtain es where n: "n = Dir es"
      by (cases n) simp_all
    show ?thesis
    proof (cases "map_of es c")
      case None
      with Cons.prems n obtain m where m: "mkdir p (Dir []) = Inr m" and n': "n' = Dir (es @ [(c, m)])"
        by (auto split: sum.splits)
      have dc: "d = c"
        using Cons.prems(2,3) None n n' q
        by (auto simp add: map_add_def split: option.splits if_splits)
      with Cons.prems(3) None n' q have l: "lookup q' m \<noteq> None"
        by (auto simp add: map_add_def split: option.splits)
      show ?thesis
      proof (cases "q' = []")
        case True
        with q dc have "q = take 1 (c # p)" by simp
        then show ?thesis by (intro exI [of _ 1]) simp
      next
        case False
        then have "lookup q' (Dir []) = None" by (simp add: lookup_vacio)
        from Cons.IH [OF m this l] obtain k where "k \<le> length p" "q' = take k p" by blast
        with q dc have "q = take (Suc k) (c # p)" by simp
        with \<open>k \<le> length p\<close> show ?thesis by (intro exI [of _ "Suc k"]) simp
      qed
    next
      case (Some m0)
      with Cons.prems n obtain m where m: "mkdir p m0 = Inr m" and n': "n' = Dir (AList.update c m es)"
        by (auto split: sum.splits)
      have dc: "d = c"
        using Cons.prems(2,3) Some n n' q
        by (auto simp add: update_conv' split: option.splits if_splits)
      with Cons.prems(2,3) Some n n' q have "lookup q' m0 = None" "lookup q' m \<noteq> None"
        by (auto simp add: update_conv' split: option.splits)
      from Cons.IH [OF m this] obtain k where "k \<le> length p" "q' = take k p" by blast
      with q dc have "q = take (Suc k) (c # p)" by simp
      with \<open>k \<le> length p\<close> show ?thesis by (intro exI [of _ "Suc k"]) simp
    qed
  qed
qed

lemma mkdir_conserva:
  "mkdir p n = Inr n' \<Longrightarrow> lookup q n = Some (Dir es) \<Longrightarrow> \<exists>es'. lookup q n' = Some (Dir es')"
proof (induction p arbitrary: n n' q)
  case Nil
  then show ?case by (auto split: node.splits)
next
  case (Cons c p)
  show ?case
  proof (cases q)
    case Nil
    with Cons.prems show ?thesis
      by (auto split: node.splits option.splits sum.splits)
  next
    case q: (Cons d q')
    from Cons.prems obtain es0 where n: "n = Dir es0"
      by (cases n) simp_all
    show ?thesis
    proof (cases "map_of es0 c")
      case None
      with Cons.prems n obtain m where m: "mkdir p (Dir []) = Inr m" and n': "n' = Dir (es0 @ [(c, m)])"
        by (auto split: sum.splits)
      with Cons.prems(2) None n q show ?thesis
        by (auto simp add: map_add_def split: option.splits)
    next
      case (Some m0)
      with Cons.prems n obtain m where m: "mkdir p m0 = Inr m" and n': "n' = Dir (AList.update c m es0)"
        by (auto split: sum.splits)
      from Cons.IH [OF m, of q'] Cons.prems(2) Some n n' q show ?thesis
        by (auto simp add: update_conv' split: option.splits)
    qed
  qed
qed

lemma mkdir_total:
  "(\<And>k ct. lookup (take k p) n \<noteq> Some (File ct)) \<Longrightarrow> \<exists>n'. mkdir p n = Inr n'"
proof (induction p arbitrary: n)
  case Nil
  from Nil [of 0] show ?case by (cases n) auto
next
  case (Cons c p)
  from Cons.prems [of 0] obtain es where n: "n = Dir es"
    by (cases n) auto
  show ?case
  proof (cases "map_of es c")
    case None
    have "\<exists>n'. mkdir p (Dir []) = Inr n'"
      by (rule Cons.IH) (simp add: lookup_vacio)
    with None n show ?thesis by auto
  next
    case (Some m0)
    have "\<exists>n'. mkdir p m0 = Inr n'"
    proof (rule Cons.IH)
      fix k ct
      from Cons.prems [of "Suc k" ct] Some n show "lookup (take k p) m0 \<noteq> Some (File ct)"
        by simp
    qed
    with Some n show ?thesis by auto
  qed
qed

lemma is_dir_iff: "is_dir r p \<longleftrightarrow> (\<exists>es. lookup p r = Some (Dir es))"
  by (auto simp add: is_dir_def split: option.splits node.splits)

lemma set_ancestros: "q \<in> set (ancestros p) \<longleftrightarrow> (\<exists>k\<le>length p. q = take k p)"
proof -
  have e: "set (ancestros p) = (\<lambda>k. take k p) ` {0..<Suc (length p)}"
    unfolding ancestros_def by (simp only: set_map set_upt)
  show ?thesis
    unfolding e image_iff by (metis atLeastLessThan_iff le0 less_Suc_eq_le)
qed

lemma self_ancestro: "p \<in> set (ancestros p)"
  unfolding set_ancestros by (rule exI [of _ "length p"]) simp

text \<open>
  C9. When \<open>init_directorios\<close> returns normally, the pending and the processed
  directory and all their parents are directories, nothing was printed, every path that
  existed keeps its kind and every file its content, a path that is new is one of those
  directories, and running it again changes nothing. When both directories exist it
  returns normally and changes nothing. It returns normally whenever no regular file
  stands where one of the directories or their parents is to be.
\<close>

theorem init_directorios_crea:
  "(init_directorios b w = (None, w') \<longrightarrow>
      (\<forall>q \<in> set (ancestros (DIR_PROCESADAS b) @ ancestros (DIR_PENDIENTES b)). is_dir (fs w') q) \<and>
      stdout w' = stdout w \<and>
      init_directorios b w' = (None, w') \<and>
      (\<forall>q ct. lookup q (fs w') = Some (File ct) \<longleftrightarrow> lookup q (fs w) = Some (File ct)) \<and>
      (\<forall>q. is_dir (fs w) q \<longrightarrow> is_dir (fs w') q) \<and>
      (\<forall>q. lookup q (fs w) = None \<and> lookup q (fs w') \<noteq> None \<longrightarrow>
           q \<in> set (ancestros (DIR_PROCESADAS b) @ ancestros (DIR_PENDIENTES b)))) \<and>
   (is_dir (fs w) (DIR_PROCESADAS b) \<and> is_dir (fs w) (DIR_PENDIENTES b) \<longrightarrow>
      init_directorios b w = (None, w)) \<and>
   ((\<forall>q \<in> set (ancestros (DIR_PROCESADAS b) @ ancestros (DIR_PENDIENTES b)).
        \<forall>ct. lookup q (fs w) \<noteq> Some (File ct)) \<longrightarrow>
      (\<exists>w1. init_directorios b w = (None, w1)))"
proof (intro conjI impI)
  assume i: "init_directorios b w = (None, w')"
  then obtain n1 n2 where m1: "mkdir (DIR_PROCESADAS b) (fs w) = Inr n1"
    and m2: "mkdir (DIR_PENDIENTES b) n1 = Inr n2" and w': "w' = w\<lparr>fs := n2\<rparr>"
    by (auto simp add: init_directorios_def split: sum.splits)
  show "\<forall>q \<in> set (ancestros (DIR_PROCESADAS b) @ ancestros (DIR_PENDIENTES b)). is_dir (fs w') q"
  proof
    fix q assume "q \<in> set (ancestros (DIR_PROCESADAS b) @ ancestros (DIR_PENDIENTES b))"
    then consider k where "q = take k (DIR_PROCESADAS b)" | k where "q = take k (DIR_PENDIENTES b)"
      by (auto simp add: set_ancestros)
    then show "is_dir (fs w') q"
    proof cases
      case 1
      from mkdir_dirs [OF m1, of k] obtain es where "lookup q n1 = Some (Dir es)"
        using 1 by auto
      from mkdir_conserva [OF m2 this] show ?thesis
        by (simp add: is_dir_iff w')
    next
      case 2
      from mkdir_dirs [OF m2, of k] show ?thesis
        using 2 by (simp add: is_dir_iff w')
    qed
  qed
  then have d: "is_dir n2 (DIR_PROCESADAS b)" "is_dir n2 (DIR_PENDIENTES b)"
    using self_ancestro [of "DIR_PROCESADAS b"] self_ancestro [of "DIR_PENDIENTES b"]
    by (auto simp add: w')
  show "stdout w' = stdout w"
    by (simp add: w')
  from d obtain e1 e2 where "lookup (DIR_PROCESADAS b) n2 = Some (Dir e1)"
    "lookup (DIR_PENDIENTES b) n2 = Some (Dir e2)"
    by (auto simp add: is_dir_iff)
  then have "mkdir (DIR_PROCESADAS b) n2 = Inr n2" "mkdir (DIR_PENDIENTES b) n2 = Inr n2"
    by (simp_all add: mkdir_noop)
  then show "init_directorios b w' = (None, w')"
    by (simp add: init_directorios_def w')
  show "\<forall>q ct. lookup q (fs w') = Some (File ct) \<longleftrightarrow> lookup q (fs w) = Some (File ct)"
    using mkdir_files [OF m1] mkdir_files [OF m2] by (simp add: w')
  show "\<forall>q. is_dir (fs w) q \<longrightarrow> is_dir (fs w') q"
    using mkdir_conserva [OF m1] mkdir_conserva [OF m2] by (fastforce simp add: is_dir_iff w')
  show "\<forall>q. lookup q (fs w) = None \<and> lookup q (fs w') \<noteq> None \<longrightarrow>
           q \<in> set (ancestros (DIR_PROCESADAS b) @ ancestros (DIR_PENDIENTES b))"
  proof (intro allI impI, elim conjE)
    fix q assume a: "lookup q (fs w) = None" and c: "lookup q (fs w') \<noteq> None"
    show "q \<in> set (ancestros (DIR_PROCESADAS b) @ ancestros (DIR_PENDIENTES b))"
    proof (cases "lookup q n1")
      case None
      from mkdir_nuevos [OF m2 None] c show ?thesis
        by (simp add: set_ancestros w')
    next
      case (Some x)
      from mkdir_nuevos [OF m1 a] Some show ?thesis
        by (simp add: set_ancestros)
    qed
  qed
next
  assume "is_dir (fs w) (DIR_PROCESADAS b) \<and> is_dir (fs w) (DIR_PENDIENTES b)"
  then obtain e1 e2 where "lookup (DIR_PROCESADAS b) (fs w) = Some (Dir e1)"
    "lookup (DIR_PENDIENTES b) (fs w) = Some (Dir e2)"
    by (auto simp add: is_dir_iff)
  then have "mkdir (DIR_PROCESADAS b) (fs w) = Inr (fs w)" "mkdir (DIR_PENDIENTES b) (fs w) = Inr (fs w)"
    by (simp_all add: mkdir_noop)
  then show "init_directorios b w = (None, w)"
    by (simp add: init_directorios_def)
next
  assume a: "\<forall>q \<in> set (ancestros (DIR_PROCESADAS b) @ ancestros (DIR_PENDIENTES b)).
        \<forall>ct. lookup q (fs w) \<noteq> Some (File ct)"
  have "\<exists>n1. mkdir (DIR_PROCESADAS b) (fs w) = Inr n1"
  proof (rule mkdir_total)
    fix k ct
    have "take k (DIR_PROCESADAS b) \<in> set (ancestros (DIR_PROCESADAS b))"
      unfolding set_ancestros by (rule exI [of _ "min k (length (DIR_PROCESADAS b))"]) (simp add: min_def)
    with a show "lookup (take k (DIR_PROCESADAS b)) (fs w) \<noteq> Some (File ct)" by simp
  qed
  then obtain n1 where m1: "mkdir (DIR_PROCESADAS b) (fs w) = Inr n1" ..
  have "\<exists>n2. mkdir (DIR_PENDIENTES b) n1 = Inr n2"
  proof (rule mkdir_total)
    fix k ct
    have "take k (DIR_PENDIENTES b) \<in> set (ancestros (DIR_PENDIENTES b))"
      unfolding set_ancestros by (rule exI [of _ "min k (length (DIR_PENDIENTES b))"]) (simp add: min_def)
    with a have "lookup (take k (DIR_PENDIENTES b)) (fs w) \<noteq> Some (File ct)" by simp
    then show "lookup (take k (DIR_PENDIENTES b)) n1 \<noteq> Some (File ct)"
      by (simp add: mkdir_files [OF m1])
  qed
  then obtain n2 where "mkdir (DIR_PENDIENTES b) n1 = Inr n2" ..
  with m1 show "\<exists>w1. init_directorios b w = (None, w1)"
    by (simp add: init_directorios_def)
qed

lemma init_vacio: "init_directorios [''app''] mundo_vacio = (None, mundo_listo)"
  by (simp add: init_directorios_def DIR_PROCESADAS_def DIR_PENDIENTES_def mundo_vacio_def mundo_listo_def)

theorem init_directorios_crea_witness:
  "init_directorios [''app''] mundo_vacio = (None, mundo_listo) \<and>
   is_dir (fs mundo_listo) [''app'', ''data'', ''facturas_procesadas''] \<and>
   is_dir (fs mundo_listo) [''app'', ''data'', ''facturas_pendientes''] \<and>
   is_dir (fs mundo_listo) [''app'', ''data''] \<and>
   init_directorios [''app''] mundo_listo = (None, mundo_listo) \<and>
   stdout mundo_listo = stdout mundo_vacio"
proof -
  note t = init_directorios_crea [where b = "[''app'']" and w = mundo_vacio and w' = mundo_listo]
  have a: "ancestros (DIR_PROCESADAS [''app'']) =
      [[], [''app''], [''app'', ''data''], [''app'', ''data'', ''facturas_procesadas'']]"
    "ancestros (DIR_PENDIENTES [''app'']) =
      [[], [''app''], [''app'', ''data''], [''app'', ''data'', ''facturas_pendientes'']]"
    by (simp_all add: ancestros_def DIR_PROCESADAS_def DIR_PENDIENTES_def upt_rec)
  from t init_vacio show ?thesis
    by (simp add: a)
qed

section \<open>The batch driver\<close>



lemma procesar_bucle_fs: "fs (snd (procesar_bucle L ps cfdis w)) = fs w"
proof (induction ps arbitrary: cfdis w)
  case Nil
  then show ?case by simp
next
  case (Cons a ps)
  obtain x w2 where p: "parsear_cfdi L a w = (x, w2)"
    by (cases "parsear_cfdi L a w")
  then have "fs w2 = fs w"
    using parsear_archivo_fs [of L a w] by (simp add: parsear_cfdi_def)
  with p Cons.IH [of _ w2] show ?case
    by (cases x) simp_all
qed





lemma glob_mundo: "glob_xml (fs mundo) (DIR_PENDIENTES [''app'']) =
    [pendientes @ [''roto.xml''], pendientes @ [''a.xml''], pendientes @ [''viejo.xml''], pendientes @ [''b.xml'']]"
  by (simp add: glob_xml_def DIR_PENDIENTES_def mundo_def pendientes_def endswith_def)



text \<open>
  C10. \<open>parsear_archivo\<close>, \<open>parsear_cfdi\<close> and \<open>procesar_cfdis_pendientes\<close> leave
  the file system as they found it, whatever the path, the directory and the library;
  \<open>init_directorios\<close> does change it (on the empty file system).
\<close>

theorem sin_escrituras:
  "fs (snd (parsear_archivo L p w)) = fs w \<and>
   fs (snd (parsear_cfdi L p w)) = fs w \<and>
   fs (snd (procesar_cfdis_pendientes L b w)) = fs w \<and>
   fs (snd (init_directorios [''app''] mundo_vacio)) \<noteq> fs mundo_vacio"
  by (simp add: parsear_archivo_fs parsear_cfdi_def procesar_cfdis_pendientes_def procesar_bucle_fs
      init_directorios_def DIR_PROCESADAS_def DIR_PENDIENTES_def mundo_vacio_def)


theorem sin_escrituras_witness:
  "fs (snd (parsear_archivo python (pendientes @ [''roto.xml'']) mundo)) = fs mundo \<and>
   fs (snd (procesar_cfdis_pendientes python [''app''] mundo)) = fs mundo \<and>
   fs (snd (init_directorios [''app''] mundo_vacio)) = fs mundo_listo"
  using sin_escrituras [where L = python and p = "pendientes @ [''roto.xml'']" and w = mundo and b = "[''app'']"]
  by (simp add: init_directorios_def DIR_PROCESADAS_def DIR_PENDIENTES_def mundo_vacio_def mundo_listo_def)

section \<open>The output stream\<close>

text \<open>
  On a stream that writes every line the functions with the failing print are the
  functions of the first form.
\<close>

lemma convertir_fecha_io_escribe:
  "convertir_fecha_io (\<lambda>d. True) L x w = (Inr (fst (convertir_fecha L x w)), snd (convertir_fecha L x w))"
  by (simp add: convertir_fecha_io_def convertir_fecha_def print_io_def split: option.splits)

lemma extraer_timbre_io_escribe:
  "extraer_timbre_fiscal_io (\<lambda>d. True) L r c w =
     (Inr (fst (extraer_timbre_fiscal L r c w)), snd (extraer_timbre_fiscal L r c w))"
  by (simp add: extraer_timbre_fiscal_io_def extraer_timbre_fiscal_def convertir_fecha_io_escribe
      Let_def case_prod_beta split: option.splits)

lemma parsear_v4_io_escribe:
  "parsear_cfdi_v4_io (\<lambda>d. True) L r a w =
     (Inr (fst (parsear_cfdi_v4 L r a w)), snd (parsear_cfdi_v4 L r a w))"
  by (simp add: parsear_cfdi_v4_io_def parsear_cfdi_v4_def convertir_fecha_io_escribe
      extraer_timbre_io_escribe Let_def case_prod_beta)

lemma parsear_v3_io_escribe:
  "parsear_cfdi_v3_io (\<lambda>d. True) L r a w =
     (Inr (fst (parsear_cfdi_v3 L r a w)), snd (parsear_cfdi_v3 L r a w))"
  by (simp add: parsear_cfdi_v3_io_def parsear_cfdi_v3_def convertir_fecha_io_escribe
      extraer_timbre_io_escribe Let_def case_prod_beta)

lemma parsear_try_io_escribe:
  "parsear_archivo_try_io (\<lambda>d. True) L p w = parsear_archivo_try L p w"
  by (simp add: parsear_archivo_try_io_def parsear_archivo_try_def parsear_v4_io_escribe
      parsear_v3_io_escribe Let_def case_prod_beta split: sum.splits)

lemma parsear_archivo_io_escribe:
  "parsear_archivo_io (\<lambda>d. True) L p w =
     (Inr (fst (parsear_archivo L p w)), snd (parsear_archivo L p w))"
  by (simp add: parsear_archivo_io_def parsear_archivo_def parsear_try_io_escribe print_io_def
      split: prod.splits sum.splits)

lemma procesar_bucle_io_escribe:
  "procesar_bucle_io (\<lambda>d. True) L ps cfdis w =
     (Inr (fst (procesar_bucle L ps cfdis w)), snd (procesar_bucle L ps cfdis w))"
proof (induction ps arbitrary: cfdis w)
  case Nil
  show ?case by simp
next
  case (Cons a ps)
  then show ?case
    by (simp add: parsear_cfdi_io_def parsear_cfdi_def parsear_archivo_io_escribe
        split: prod.splits option.splits)
qed

lemma procesar_pendientes_io_escribe:
  "procesar_cfdis_pendientes_io (\<lambda>d. True) L b w =
     (Inr (fst (procesar_cfdis_pendientes L b w)), snd (procesar_cfdis_pendientes L b w))"
  by (simp add: procesar_cfdis_pendientes_io_def procesar_cfdis_pendientes_def
      procesar_bucle_io_escribe)

lemma try_io_falta:
  "lookup p (fs w) = None \<Longrightarrow> parsear_archivo_try_io acepta L p w = (Inl (FileNotFoundError p), w)"
  by (simp add: parsear_archivo_try_io_def exists_def)

lemma try_io_roto:
  "lookup p (fs w) = Some (File NotWellFormed) \<Longrightarrow> parsear_archivo_try_io acepta L p w = (Inl ParseError, w)"
  by (simp add: parsear_archivo_try_io_def exists_def ET_parse_def)

lemma try_io_version:
  "lookup p (fs w) = Some (File (Document r)) \<Longrightarrow> detectar_version r \<noteq> ''4.0'' \<Longrightarrow>
   detectar_version r \<noteq> ''3.3'' \<Longrightarrow>
   parsear_archivo_try_io acepta L p w = (Inl (ValueError_version (detectar_version r)), w)"
  by (simp add: parsear_archivo_try_io_def exists_def ET_parse_def)

lemma try_io_v3:
  "lookup p (fs w) = Some (File (Document r)) \<Longrightarrow> detectar_version r = ''3.3'' \<Longrightarrow>
   parsear_archivo_try_io acepta L p w = parsear_cfdi_v3_io acepta L r p w"
  by (simp add: parsear_archivo_try_io_def exists_def ET_parse_def)

lemma v3_io_sin_fechas:
  "get r ''fecha'' = None \<Longrightarrow> get r ''Fecha'' = None \<Longrightarrow>
   find_descendant r (ns_tfd @ ''TimbreFiscalDigital'') = None \<Longrightarrow>
   \<exists>c. parsear_cfdi_v3_io acepta L r a w = (Inr c, w)"
  by (simp add: parsear_cfdi_v3_io_def convertir_fecha_io_def extraer_timbre_fiscal_io_def py_or_def
      Let_def)

lemma handler_rechaza:
  "parsear_archivo_try_io acepta L p w = (Inl e, w1) \<Longrightarrow> \<not> acepta (Error_al_parsear p e) \<Longrightarrow>
   parsear_archivo_io acepta L p w = (Inl UnicodeEncodeError, w1)"
  by (simp add: parsear_archivo_io_def print_io_def)

lemma handler_escribe:
  "parsear_archivo_try_io acepta L p w = (Inl e, w1) \<Longrightarrow> acepta (Error_al_parsear p e) \<Longrightarrow>
   parsear_archivo_io acepta L p w = (Inr None, print (Error_al_parsear p e) w1)"
  by (simp add: parsear_archivo_io_def print_io_def)

lemma lookup_enie: "lookup [CHR 0xF1 # ''.xml''] (fs mundo) = None"
  by (simp add: mundo_def)

lemma fs_print: "fs (print d w) = fs w"
  by (simp add: print_def)

lemma escapa_viejo:
  "fs w = fs mundo \<Longrightarrow>
   parsear_archivo_io flujo_ascii L (pendientes @ [''viejo.xml'']) w = (Inl UnicodeEncodeError, w)"
  by (rule handler_rechaza [OF try_io_version [where r = ejemplo_v2]])
     (simp_all add: lookup_viejo version_viejo flujo_ascii_def)

lemma escapa_enie:
  "parsear_archivo_io flujo_ascii L [CHR 0xF1 # ''.xml''] mundo = (Inl UnicodeEncodeError, mundo)"
  by (rule handler_rechaza [OF try_io_falta [OF lookup_enie]])
     (simp add: flujo_ascii_def es_ascii_def)

lemma escribe_roto:
  "parsear_archivo_io flujo_ascii L (pendientes @ [''roto.xml'']) mundo =
     (Inr None, print (Error_al_parsear (pendientes @ [''roto.xml'']) ParseError) mundo)"
  by (rule handler_escribe [OF try_io_roto [OF lookup_roto]])
     (simp add: flujo_ascii_def es_ascii_def pendientes_def)

lemma pasa_a:
  assumes "fs w = fs mundo"
  shows "\<exists>c. parsear_archivo_io flujo_ascii L (pendientes @ [''a.xml'']) w = (Inr (Some c), w)"
proof -
  have "lookup (pendientes @ [''a.xml'']) (fs w) = Some (File (Document ejemplo_sin_version))"
    by (simp add: assms lookup_a)
  from try_io_v3 [OF this version_a]
  have "parsear_archivo_try_io flujo_ascii L (pendientes @ [''a.xml'']) w =
          parsear_cfdi_v3_io flujo_ascii L ejemplo_sin_version (pendientes @ [''a.xml'']) w" .
  moreover have "\<exists>c. parsear_cfdi_v3_io flujo_ascii L ejemplo_sin_version (pendientes @ [''a.xml'']) w = (Inr c, w)"
    by (rule v3_io_sin_fechas) (simp_all add: ejemplo_sin_version_def get_def find_descendant_def ns_tfd_def)
  ultimately show ?thesis
    by (auto simp add: parsear_archivo_io_def)
qed

lemma escapa_lote:
  "procesar_cfdis_pendientes_io flujo_ascii L [''app''] mundo =
     (Inl UnicodeEncodeError, print (Error_al_parsear (pendientes @ [''roto.xml'']) ParseError) mundo)"
proof -
  let ?w = "print (Error_al_parsear (pendientes @ [''roto.xml'']) ParseError) mundo"
  have f: "fs ?w = fs mundo"
    by (rule fs_print)
  from pasa_a [OF f] obtain c
    where a: "parsear_archivo_io flujo_ascii L (pendientes @ [''a.xml'']) ?w = (Inr (Some c), ?w)" ..
  have e: "exists (fs mundo) (DIR_PENDIENTES [''app''])"
    by (simp add: exists_def mundo_def DIR_PENDIENTES_def)
  show ?thesis
    by (simp add: procesar_cfdis_pendientes_io_def e glob_mundo parsear_cfdi_io_def escribe_roto a
        escapa_viejo [OF f])
qed

text \<open>
  C6. The claim: for every path \<open>parsear_archivo\<close> never raises to its caller, and no
  whole-record failure reaches the batch driver. The handler that absorbs the failure
  prints a line that holds the path and the message of the exception, and that print is
  inside no \<open>try\<close> block: on a stream that cannot write the line,
  \<open>UnicodeEncodeError\<close> leaves \<open>parsear_archivo\<close>, \<open>parsear_cfdi\<close> and the loop of
  \<open>procesar_cfdis_pendientes\<close>. On a stream with the ASCII encoding this happens for
  a document of an unsupported version, whatever its path, and for a missing file whose
  name has a character above 127; the batch over the example directory ends at
  \<open>viejo.xml\<close>, and the record of \<open>a.xml\<close>, parsed before it, is lost.
\<close>

theorem parsear_archivo_escapa:
  "parsear_archivo_io flujo_ascii python (pendientes @ [''viejo.xml'']) mundo =
     (Inl UnicodeEncodeError, mundo) \<and>
   parsear_archivo_io flujo_ascii python [CHR 0xF1 # ''.xml''] mundo = (Inl UnicodeEncodeError, mundo) \<and>
   parsear_cfdi_io flujo_ascii python (pendientes @ [''viejo.xml'']) mundo =
     (Inl UnicodeEncodeError, mundo) \<and>
   procesar_cfdis_pendientes_io flujo_ascii python [''app''] mundo =
     (Inl UnicodeEncodeError, print (Error_al_parsear (pendientes @ [''roto.xml'']) ParseError) mundo)"
  using escapa_viejo [of mundo python] escapa_enie [of python] escapa_lote [of python]
  by (simp add: parsear_cfdi_io_def)

section \<open>The case-fallback law\<close>

lemma map_of_rename:
  "(\<And>k'. k' \<in> fst ` set al \<Longrightarrow> f k' = x \<Longrightarrow> k' = k) \<Longrightarrow> f k = x \<Longrightarrow>
   map_of (map (\<lambda>(k, v). (f k, v)) al) x = map_of al k"
proof (induction al)
  case Nil
  then show ?case by simp
next
  case (Cons kv al)
  obtain k0 v0 where kv: "kv = (k0, v0)" by (cases kv)
  have "map_of (map (\<lambda>(k, v). (f k, v)) al) x = map_of al k"
    by (rule Cons.IH) (use Cons.prems in auto)
  moreover have "f k0 = x \<longleftrightarrow> k0 = k"
    using Cons.prems(1) [of k0] Cons.prems(2) kv by auto
  ultimately show ?case
    using kv by auto
qed

lemma map_of_rename_None:
  "(\<And>k'. k' \<in> fst ` set al \<Longrightarrow> f k' \<noteq> x) \<Longrightarrow> map_of (map (\<lambda>(k, v). (f k, v)) al) x = None"
proof (induction al)
  case Nil
  then show ?case by simp
next
  case (Cons kv al)
  obtain k0 v0 where kv: "kv = (k0, v0)" by (cases kv)
  have "map_of (map (\<lambda>(k, v). (f k, v)) al) x = None"
    by (rule Cons.IH) (use Cons.prems in auto)
  moreover have "f k0 \<noteq> x"
    using Cons.prems [of k0] kv by auto
  ultimately show ?case
    using kv by auto
qed

lemma find_map_option: "find P (map f xs) = map_option f (find (\<lambda>x. P (f x)) xs)"
  by (induction xs) auto

lemma attrib_renombrar: "attrib (renombrar f e) = map (\<lambda>(k, v). (f k, v)) (attrib e)"
  by (cases e) simp

lemma tag_renombrar: "tag (renombrar f e) = tag e"
  by (cases e) simp

lemma children_renombrar: "children (renombrar f e) = map (renombrar f) (children e)"
  by (cases e) simp

lemma iter_renombrar: "iter (renombrar f e) = map (renombrar f) (iter e)"
proof (induction e)
  case (Element t a cs)
  then have "map (\<lambda>c. iter (renombrar f c)) cs = map (\<lambda>c. map (renombrar f) (iter c)) cs"
    by simp
  then have "concat (map (\<lambda>c. iter (renombrar f c)) cs) = concat (map (\<lambda>c. map (renombrar f) (iter c)) cs)"
    by (rule arg_cong)
  then show ?case
    by (simp add: map_concat comp_def)
qed

lemma find_child_renombrar:
  "find_child (renombrar f e) t = map_option (renombrar f) (find_child e t)"
  by (simp add: find_child_def children_renombrar find_map_option comp_def tag_renombrar)

lemma find_descendant_renombrar:
  "find_descendant (renombrar f e) t = map_option (renombrar f) (find_descendant e t)"
proof -
  have "concat (map iter (children (renombrar f e))) = map (renombrar f) (concat (map iter (children e)))"
    by (simp add: children_renombrar map_concat comp_def iter_renombrar)
  then show ?thesis
    by (simp add: find_descendant_def find_map_option comp_def tag_renombrar)
qed

lemma minuscula_cases:
  "minuscula k' = x \<Longrightarrow>
   k' = x \<or> (k', x) \<in> set [(''Folio'', ''folio''), (''Serie'', ''serie''), (''Total'', ''total''),
      (''SubTotal'', ''subTotal''), (''Fecha'', ''fecha''), (''Rfc'', ''rfc''), (''Nombre'', ''nombre'')]"
  by (auto simp add: minuscula_def split: if_splits)

lemma get_minuscula_baja:
  assumes "get e l = None"
    and "(K, l) \<in> set [(''Folio'', ''folio''), (''Serie'', ''serie''), (''Total'', ''total''),
      (''SubTotal'', ''subTotal''), (''Fecha'', ''fecha''), (''Rfc'', ''rfc''), (''Nombre'', ''nombre'')]"
  shows "get (renombrar minuscula e) l = get e K"
  unfolding get_def attrib_renombrar
proof (rule map_of_rename)
  from assms(2) show "minuscula K = l"
    by (auto simp add: minuscula_def)
next
  fix k' assume k: "k' \<in> fst ` set (attrib e)" and m: "minuscula k' = l"
  from assms(1) have "l \<notin> fst ` set (attrib e)"
    by (simp add: get_def map_of_eq_None_iff)
  with k have "k' \<noteq> l" by auto
  with minuscula_cases [OF m] assms(2) show "k' = K"
    by auto
qed

lemma get_minuscula_alta:
  assumes "K \<in> set [''Folio'', ''Serie'', ''Total'', ''SubTotal'', ''Fecha'', ''Rfc'', ''Nombre'']"
  shows "get (renombrar minuscula e) K = None"
  unfolding get_def attrib_renombrar
proof (rule map_of_rename_None)
  fix k' assume "k' \<in> fst ` set (attrib e)"
  show "minuscula k' \<noteq> K"
  proof
    assume "minuscula k' = K"
    from minuscula_cases [OF this] assms have "k' = K" by auto
    with \<open>minuscula k' = K\<close> assms show False
      by (auto simp add: minuscula_def)
  qed
qed

lemma get_minuscula_otra:
  assumes "k \<notin> set [''Folio'', ''Serie'', ''Total'', ''SubTotal'', ''Fecha'', ''Rfc'', ''Nombre'',
      ''folio'', ''serie'', ''total'', ''subTotal'', ''fecha'', ''rfc'', ''nombre'']"
  shows "get (renombrar minuscula e) k = get e k"
  unfolding get_def attrib_renombrar
proof (rule map_of_rename)
  from assms show "minuscula k = k"
    by (auto simp add: minuscula_def)
next
  fix k' assume "minuscula k' = k"
  from minuscula_cases [OF this] assms show "k' = k"
    by auto
qed

lemma get_default_get: "get_default e k d = (case get e k of None \<Rightarrow> d | Some v \<Rightarrow> v)"
  by (simp add: get_default_def get_def)

lemma py_or_None: "py_or None x = x"
  by (simp add: py_or_def)

lemma convertir_a_float_or: "convertir_a_float L (py_or x None) = convertir_a_float L x"
  by (simp add: convertir_a_float_def py_or_def split: option.splits)

lemma convertir_fecha_or: "convertir_fecha L (py_or x None) w = convertir_fecha L x w"
  by (simp add: convertir_fecha_def py_or_def split: option.splits)

lemma py_or_texto: "x \<noteq> Some [] \<Longrightarrow> py_or x None = x"
  by (simp add: py_or_def split: option.splits)

lemma pascal_raiz:
  assumes "pascal e"
  shows "py_or (get (renombrar minuscula e) ''folio'') (get (renombrar minuscula e) ''Folio'') =
           py_or (get e ''folio'') (get e ''Folio'')"
    and "py_or (get (renombrar minuscula e) ''serie'') (get (renombrar minuscula e) ''Serie'') =
           py_or (get e ''serie'') (get e ''Serie'')"
    and "py_or (get (renombrar minuscula e) ''rfc'') (get (renombrar minuscula e) ''Rfc'') =
           py_or (get e ''rfc'') (get e ''Rfc'')"
    and "py_or (get (renombrar minuscula e) ''nombre'') (get (renombrar minuscula e) ''Nombre'') =
           py_or (get e ''nombre'') (get e ''Nombre'')"
    and "py_or (get (renombrar minuscula e) ''total'') (get (renombrar minuscula e) ''Total'') =
           py_or (get e ''Total'') None"
    and "py_or (get (renombrar minuscula e) ''subTotal'') (get (renombrar minuscula e) ''SubTotal'') =
           py_or (get e ''SubTotal'') None"
    and "py_or (get (renombrar minuscula e) ''fecha'') (get (renombrar minuscula e) ''Fecha'') =
           py_or (get e ''Fecha'') None"
    and "py_or (get e ''total'') (get e ''Total'') = get e ''Total''"
    and "py_or (get e ''subTotal'') (get e ''SubTotal'') = get e ''SubTotal''"
    and "py_or (get e ''fecha'') (get e ''Fecha'') = get e ''Fecha''"
  using assms
  by (simp_all add: pascal_def get_minuscula_baja get_minuscula_alta py_or_None py_or_texto)

lemma otras:
  "get (renombrar minuscula e) ''UUID'' = get e ''UUID''"
  "get (renombrar minuscula e) ''FechaTimbrado'' = get e ''FechaTimbrado''"
  "get_default (renombrar minuscula e) ''Moneda'' d = get_default e ''Moneda'' d"
  by (simp_all add: get_default_get get_minuscula_otra)

lemma extraer_timbre_renombrar:
  "extraer_timbre_fiscal L (renombrar minuscula e) c w = extraer_timbre_fiscal L e c w"
  by (cases "find_descendant e (ns_tfd @ ''TimbreFiscalDigital'')")
     (simp_all add: extraer_timbre_fiscal_def find_descendant_renombrar otras)

lemma find_child_en: "find_child e t = Some x \<Longrightarrow> x \<in> set (children e)"
  by (auto simp add: find_child_def find_Some_iff)

lemma renombrar_minuscula_v3:
  assumes "pascal e" and "list_all pascal (children e)"
  shows "parsear_cfdi_v3 L (renombrar minuscula e) a w = parsear_cfdi_v3 L e a w"
proof -
  have em: "(case find_child (renombrar minuscula e) (ns_cfdi3 @ ''Emisor'') of None \<Rightarrow> c
             | Some x \<Rightarrow> c\<lparr>emisor_rfc := py_or (get x ''rfc'') (get x ''Rfc''),
                           emisor_nombre := py_or (get x ''nombre'') (get x ''Nombre'')\<rparr>) =
            (case find_child e (ns_cfdi3 @ ''Emisor'') of None \<Rightarrow> c
             | Some x \<Rightarrow> c\<lparr>emisor_rfc := py_or (get x ''rfc'') (get x ''Rfc''),
                           emisor_nombre := py_or (get x ''nombre'') (get x ''Nombre'')\<rparr>)" for c
  proof (cases "find_child e (ns_cfdi3 @ ''Emisor'')")
    case None
    then show ?thesis by (simp add: find_child_renombrar)
  next
    case (Some x)
    with assms(2) have "pascal x"
      using find_child_en [OF Some] by (simp add: list_all_iff)
    with Some show ?thesis
      by (simp add: find_child_renombrar pascal_raiz)
  qed
  have re: "(case find_child (renombrar minuscula e) (ns_cfdi3 @ ''Receptor'') of None \<Rightarrow> c
             | Some x \<Rightarrow> c\<lparr>receptor_rfc := py_or (get x ''rfc'') (get x ''Rfc''),
                           receptor_nombre := py_or (get x ''nombre'') (get x ''Nombre'')\<rparr>) =
            (case find_child e (ns_cfdi3 @ ''Receptor'') of None \<Rightarrow> c
             | Some x \<Rightarrow> c\<lparr>receptor_rfc := py_or (get x ''rfc'') (get x ''Rfc''),
                           receptor_nombre := py_or (get x ''nombre'') (get x ''Nombre'')\<rparr>)" for c
  proof (cases "find_child e (ns_cfdi3 @ ''Receptor'')")
    case None
    then show ?thesis by (simp add: find_child_renombrar)
  next
    case (Some x)
    with assms(2) have "pascal x"
      using find_child_en [OF Some] by (simp add: list_all_iff)
    with Some show ?thesis
      by (simp add: find_child_renombrar pascal_raiz)
  qed
  show ?thesis
    unfolding parsear_cfdi_v3_def Let_def em re extraer_timbre_renombrar
    by (simp add: pascal_raiz [OF assms(1)] otras convertir_a_float_or convertir_fecha_or
        cong: option.case_cong prod.case_cong)
qed

lemma moneda_v3: "moneda (fst (parsear_cfdi_v3 L e a w)) = Some (get_default e ''Moneda'' ''MXN'')"
  by (simp add: parsear_cfdi_v3_def Let_def case_prod_beta extraer_timbre_fiscal_def
      split: option.splits)

text \<open>
  C2. The claim: a v3.3 document that uses lowercase-initial attribute names exclusively
  maps to the same record as its PascalCase equivalent, the currency included. The
  currency is read from \<open>Moneda\<close> only: the example that declares USD yields USD,
  and the same document with every name lowercased, \<open>moneda\<close> too, yields the default
  MXN.
\<close>

theorem minusculas_moneda_distinta:
  "moneda (fst (parsear_cfdi_v3 python ejemplo_v3 [''f.xml''] mundo_vacio)) = Some ''USD'' \<and>
   moneda (fst (parsear_cfdi_v3 python (renombrar minuscula_moneda ejemplo_v3) [''f.xml''] mundo_vacio)) = Some ''MXN'' \<and>
   parsear_cfdi_v3 python (renombrar minuscula_moneda ejemplo_v3) [''f.xml''] mundo_vacio \<noteq>
     parsear_cfdi_v3 python ejemplo_v3 [''f.xml''] mundo_vacio"
proof -
  have a: "moneda (fst (parsear_cfdi_v3 python ejemplo_v3 [''f.xml''] mundo_vacio)) = Some ''USD''"
    by (simp add: moneda_v3 ejemplo_v3_def get_default_def)
  have b: "moneda (fst (parsear_cfdi_v3 python (renombrar minuscula_moneda ejemplo_v3) [''f.xml''] mundo_vacio)) = Some ''MXN''"
    by (simp add: moneda_v3 ejemplo_v3_def get_default_def minuscula_moneda_def minuscula_def)
  from a b show ?thesis by auto
qed


text \<open>A listed text attribute with an empty value is a second difference.\<close>

lemma renombrar_folio_vacio:
  "folio (fst (parsear_cfdi_v3 L (Element t [(''Folio'', [])] []) a w)) = Some [] \<and>
   folio (fst (parsear_cfdi_v3 L (renombrar minuscula (Element t [(''Folio'', [])] [])) a w)) = None"
  by (simp add: parsear_v3_fst Let_def get_def py_or_def minuscula_def find_child_def
      find_descendant_def)

text \<open>
  C2, amended. In the v3.3 mapping each of folio, serie, total, subTotal, fecha and the
  issuer's and recipient's rfc and nombre is read from the lowercase-initial attribute
  when that is a non-empty string and from the PascalCase attribute otherwise; the
  currency is read from \<open>Moneda\<close> alone. So a document that spells these names in
  PascalCase only, with no empty folio, serie, rfc or nombre, and the same document with
  these names lowercased (\<open>Moneda\<close> kept) map to the same record and print the same.
\<close>

theorem minusculas_equivalentes:
  "folio (fst (parsear_cfdi_v3 L e a w)) = py_or (get e ''folio'') (get e ''Folio'') \<and>
   serie (fst (parsear_cfdi_v3 L e a w)) = py_or (get e ''serie'') (get e ''Serie'') \<and>
   total (fst (parsear_cfdi_v3 L e a w)) = convertir_a_float L (py_or (get e ''total'') (get e ''Total'')) \<and>
   subtotal (fst (parsear_cfdi_v3 L e a w)) =
     convertir_a_float L (py_or (get e ''subTotal'') (get e ''SubTotal'')) \<and>
   fecha_emision (fst (parsear_cfdi_v3 L e a w)) =
     fst (convertir_fecha L (py_or (get e ''fecha'') (get e ''Fecha'')) w) \<and>
   moneda (fst (parsear_cfdi_v3 L e a w)) = Some (get_default e ''Moneda'' ''MXN'') \<and>
   (\<forall>x. find_child e (ns_cfdi3 @ ''Emisor'') = Some x \<longrightarrow>
      emisor_rfc (fst (parsear_cfdi_v3 L e a w)) = py_or (get x ''rfc'') (get x ''Rfc'') \<and>
      emisor_nombre (fst (parsear_cfdi_v3 L e a w)) = py_or (get x ''nombre'') (get x ''Nombre'')) \<and>
   (\<forall>x. find_child e (ns_cfdi3 @ ''Receptor'') = Some x \<longrightarrow>
      receptor_rfc (fst (parsear_cfdi_v3 L e a w)) = py_or (get x ''rfc'') (get x ''Rfc'') \<and>
      receptor_nombre (fst (parsear_cfdi_v3 L e a w)) = py_or (get x ''nombre'') (get x ''Nombre'')) \<and>
   (pascal e \<and> list_all pascal (children e) \<longrightarrow>
      parsear_cfdi_v3 L (renombrar minuscula e) a w = parsear_cfdi_v3 L e a w)"
proof -
  have campos:
    "folio (fst (parsear_cfdi_v3 L e a w)) = py_or (get e ''folio'') (get e ''Folio'')"
    "serie (fst (parsear_cfdi_v3 L e a w)) = py_or (get e ''serie'') (get e ''Serie'')"
    "total (fst (parsear_cfdi_v3 L e a w)) = convertir_a_float L (py_or (get e ''total'') (get e ''Total''))"
    "subtotal (fst (parsear_cfdi_v3 L e a w)) =
       convertir_a_float L (py_or (get e ''subTotal'') (get e ''SubTotal''))"
    "fecha_emision (fst (parsear_cfdi_v3 L e a w)) =
       fst (convertir_fecha L (py_or (get e ''fecha'') (get e ''Fecha'')) w)"
    "moneda (fst (parsear_cfdi_v3 L e a w)) = Some (get_default e ''Moneda'' ''MXN'')"
    by (simp_all add: parsear_v3_fst Let_def convertir_fecha_fst split: option.splits)
  have emisor: "\<forall>x. find_child e (ns_cfdi3 @ ''Emisor'') = Some x \<longrightarrow>
      emisor_rfc (fst (parsear_cfdi_v3 L e a w)) = py_or (get x ''rfc'') (get x ''Rfc'') \<and>
      emisor_nombre (fst (parsear_cfdi_v3 L e a w)) = py_or (get x ''nombre'') (get x ''Nombre'')"
    by (simp add: parsear_v3_fst Let_def split: option.splits)
  have receptor: "\<forall>x. find_child e (ns_cfdi3 @ ''Receptor'') = Some x \<longrightarrow>
      receptor_rfc (fst (parsear_cfdi_v3 L e a w)) = py_or (get x ''rfc'') (get x ''Rfc'') \<and>
      receptor_nombre (fst (parsear_cfdi_v3 L e a w)) = py_or (get x ''nombre'') (get x ''Nombre'')"
    by (simp add: parsear_v3_fst Let_def split: option.splits)
  have igual: "pascal e \<and> list_all pascal (children e) \<longrightarrow>
      parsear_cfdi_v3 L (renombrar minuscula e) a w = parsear_cfdi_v3 L e a w"
    by (simp add: renombrar_minuscula_v3)
  from campos emisor receptor igual show ?thesis
    by blast
qed

theorem minusculas_equivalentes_witness:
  "pascal ejemplo_v3 \<and> list_all pascal (children ejemplo_v3) \<and>
   get (renombrar minuscula ejemplo_v3) ''folio'' = Some ''7'' \<and>
   get (renombrar minuscula ejemplo_v3) ''Folio'' = None \<and>
   fst (parsear_cfdi_v3 python ejemplo_v3 [''f.xml''] mundo_vacio) = registro_v3 \<and>
   parsear_cfdi_v3 python (renombrar minuscula ejemplo_v3) [''f.xml''] mundo_vacio =
     parsear_cfdi_v3 python ejemplo_v3 [''f.xml''] mundo_vacio"
proof -
  have h: "pascal ejemplo_v3 \<and> list_all pascal (children ejemplo_v3)"
    by (simp add: pascal_def get_def ejemplo_v3_def)
  have g: "get (renombrar minuscula ejemplo_v3) ''folio'' = Some ''7''"
    "get (renombrar minuscula ejemplo_v3) ''Folio'' = None"
    by (simp_all add: get_def ejemplo_v3_def minuscula_def)
  from minusculas_equivalentes [where L = python and e = ejemplo_v3 and a = "[''f.xml'']" and w = mundo_vacio]
  have "pascal ejemplo_v3 \<and> list_all pascal (children ejemplo_v3) \<longrightarrow>
      parsear_cfdi_v3 python (renombrar minuscula ejemplo_v3) [''f.xml''] mundo_vacio =
        parsear_cfdi_v3 python ejemplo_v3 [''f.xml''] mundo_vacio"
    by blast
  with h g v3_f show ?thesis by simp
qed

end
